theory Spec2Isabelle
  imports Complex_Main "HOL-Library.Multiset"
begin

section \<open>Truth-or-die: the calculation engine, the randomizer and the round orchestrator\<close>

text \<open>
  The TypeScript sources embedded here are \<^verbatim>\<open>utils/calculation.ts\<close> (P&L, liquidation
  price, liquidation test, payout), \<^verbatim>\<open>utils/randomizer.ts\<close> (position assignment) and
  \<^verbatim>\<open>services/gameStateManager.ts\<close> (the class \<^verbatim>\<open>GameStateManager\<close>).

  Conventions of the embedding:
  \<^item> a JavaScript \<^verbatim>\<open>number\<close> that carries money, a price or a leverage is a \<^typ>\<open>real\<close>;
    \<^verbatim>\<open>NaN\<close>, \<^verbatim>\<open>Infinity\<close> and results beyond the largest double are outside the
    model. The liquidation price decides a comparison, so its three operations are
    rounded as binary64 arithmetic rounds them (\<open>fl\<close> below); the amounts of P&L and
    payout are read as exact arithmetic. A timestamp in milliseconds is an \<^typ>\<open>int\<close>;
  \<^item> a JavaScript \<^verbatim>\<open>Map\<close> is an association list in insertion order, and \<^verbatim>\<open>Map.set\<close>
    overwrites the value of a key that is present and appends a key that is not;
  \<^item> an object held in a \<^verbatim>\<open>Map\<close> and mutated in place is written back under its key;
  \<^item> a \<^verbatim>\<open>throw\<close> (a rejected promise) is a value of type \<open>Error option\<close> returned
    next to the state reached when the exception left the method;
  \<^item> results of \<^verbatim>\<open>Date.now()\<close>, \<^verbatim>\<open>Math.random()\<close>, the price feed and identifiers
    generated by the database are parameters of the operation that reads them;
  \<^item> every method runs to completion before the next event is admitted.
\<close>

subsection \<open>Types of \<^verbatim>\<open>types.ts\<close>\<close>

datatype GamePhase = LOBBY | ROUND

datatype PositionType = LONG | SHORT

record PlayerPosition =
  playerId :: string
  positionType :: PositionType
  betAmount :: real
  entryPrice :: real
  currentPnl :: real
  liquidated :: bool
  didShoot :: bool
  shotAt :: "int option"

subsection \<open>\<^verbatim>\<open>Map\<close> as an insertion-ordered association list\<close>

fun mapSet :: "'k \<Rightarrow> 'v \<Rightarrow> ('k \<times> 'v) list \<Rightarrow> ('k \<times> 'v) list" where
  "mapSet k v [] = [(k, v)]"
| "mapSet k v ((k', v') # kvs) =
     (if k' = k then (k, v) # kvs else (k', v') # mapSet k v kvs)"

definition mapGet :: "('k \<times> 'v) list \<Rightarrow> 'k \<Rightarrow> 'v option" where
  "mapGet kvs k = map_of kvs k"

definition mapHas :: "('k \<times> 'v) list \<Rightarrow> 'k \<Rightarrow> bool" where
  "mapHas kvs k = (map_of kvs k \<noteq> None)"

subsection \<open>Rounding of binary64 arithmetic\<close>

text \<open>
  An arithmetic operation on doubles returns the double nearest to the exact result, a
  tie going to the neighbour with an even significand. \<open>binaryExponent\<close> finds the
  exponent \<open>e\<close> with \<open>2 ^ e \<le> x < 2 ^ (e + 1)\<close> by halving or doubling, within a
  number of steps that covers every exponent of a double; below the exponent -1022 the
  doubles are subnormal and keep the spacing of that exponent. The doubles with exponent
  \<open>e\<close> are the multiples of \<open>2 ^ (e - 52)\<close>.
\<close>

definition pow2 :: "int \<Rightarrow> real" where
  "pow2 e = (if 0 \<le> e then 2 ^ nat e else 1 / 2 ^ nat (- e))"

fun binaryExponent :: "nat \<Rightarrow> real \<Rightarrow> int \<Rightarrow> int" where
  "binaryExponent 0 x e = e"
| "binaryExponent (Suc n) x e =
     (if 2 \<le> x then binaryExponent n (x / 2) (e + 1)
      else if x < 1 then binaryExponent n (x * 2) (e - 1)
      else e)"

definition roundTiesToEven :: "real \<Rightarrow> int" where
  "roundTiesToEven x =
     (let n = \<lfloor>x\<rfloor>; d = x - of_int n
      in if d < 1 / 2 then n else if 1 / 2 < d then n + 1 else if even n then n else n + 1)"

definition fl :: "real \<Rightarrow> real" where
  "fl x =
     (if x = 0 then 0
      else (let e = max (binaryExponent 1100 \<bar>x\<bar> 0) (- 1022);
                quantum = pow2 (e - 52)
            in sgn x * of_int (roundTiesToEven (\<bar>x\<bar> / quantum)) * quantum))"

subsection \<open>Calculation engine\<close>

definition calculatePnL :: "PositionType \<Rightarrow> real \<Rightarrow> real \<Rightarrow> real \<Rightarrow> real \<Rightarrow> real" where
  "calculatePnL side entryPrice' currentPrice' entryAmount leverage' =
     (let priceChange = currentPrice' - entryPrice';
          priceChangePercent = priceChange / entryPrice'
      in if side = LONG
         then entryAmount * priceChangePercent * leverage'
         else entryAmount * (- priceChangePercent) * leverage')"

definition calculatePnLPercentage :: "real \<Rightarrow> real \<Rightarrow> real" where
  "calculatePnLPercentage pnl entryAmount = (pnl / entryAmount) * 100"

definition calculateLiquidationPrice :: "PositionType \<Rightarrow> real \<Rightarrow> real \<Rightarrow> real" where
  "calculateLiquidationPrice side entryPrice' leverage' =
     (let liquidationPercentage = fl (1 / leverage')
      in if side = LONG
         then fl (entryPrice' * fl (1 - liquidationPercentage))
         else fl (entryPrice' * fl (1 + liquidationPercentage)))"

definition isLiquidated :: "PositionType \<Rightarrow> real \<Rightarrow> real \<Rightarrow> real \<Rightarrow> bool" where
  "isLiquidated side entryPrice' currentPrice' leverage' =
     (let liquidationPrice = calculateLiquidationPrice side entryPrice' leverage'
      in if side = LONG
         then currentPrice' \<le> liquidationPrice
         else currentPrice' \<ge> liquidationPrice)"

definition calculatePayout :: "real \<Rightarrow> real \<Rightarrow> bool \<Rightarrow> bool \<Rightarrow> real" where
  "calculatePayout entryAmount pnl didShoot' liquidated' =
     (if liquidated' then 0 else max 0 (entryAmount + pnl))"

subsection \<open>Randomizer\<close>

text \<open>
  \<^verbatim>\<open>[...playerIds].sort(() => Math.random() - 0.5)\<close> is the parameter \<open>shuffle\<close>: the
  order it returns is random, and all that is known of it is that it rearranges its
  argument. The \<^verbatim>\<open>forEach\<close> with its index is a fold over the enumerated list.
\<close>

definition assignRandomPositions ::
  "(string list \<Rightarrow> string list) \<Rightarrow> string list \<Rightarrow> (string \<times> PositionType) list" where
  "assignRandomPositions shuffle playerIds =
     (let shuffled = shuffle playerIds;
          halfPoint = length shuffled div 2
      in fold (\<lambda>(index, playerId') positions.
                 mapSet playerId' (if index < halfPoint then LONG else SHORT) positions)
              (enumerate 0 shuffled) [])"

subsection \<open>Remaining types of \<^verbatim>\<open>types.ts\<close>\<close>

text \<open>
  Two interfaces of the source share field names with \<^typ>\<open>PlayerPosition\<close>; the fields
  of \<open>LobbyPlayer\<close> carry the prefix \<open>lobby\<close> where they would clash, the field \<^verbatim>\<open>id\<close>
  of \<open>RoundState\<close> is \<open>roundId\<close> and its \<^verbatim>\<open>entryPrice\<close> is \<open>roundEntryPrice\<close>.
\<close>

record LobbyPlayer =
  lobbyPlayerId :: string
  username :: string
  lobbyBetAmount :: real
  balance :: real
  joinedAt :: int

record RoundState =
  roundId :: string
  pair :: string
  roundEntryPrice :: real
  currentPrice :: real
  leverage :: real
  startTime :: int
  endTime :: "int option"
  duration :: real
  totalWagered :: real
  positions :: "(string \<times> PlayerPosition) list"

subsection \<open>Configuration\<close>

text \<open>
  The object \<^verbatim>\<open>CONFIG\<close> is read from the environment when the process starts; the
  fields the orchestrator reads are the parameter \<open>cfg\<close>.
\<close>

record Config =
  DEFAULT_LEVERAGE :: real
  LOBBY_DURATION_SECONDS :: int
  DEFAULT_DEMO_BALANCE :: real
  MIN_BET_AMOUNT :: real

definition defaultConfig :: Config where
  "defaultConfig = \<lparr>DEFAULT_LEVERAGE = 500, LOBBY_DURATION_SECONDS = 20,
                     DEFAULT_DEMO_BALANCE = 100, MIN_BET_AMOUNT = 1 / 100\<rparr>"

subsection \<open>Persistence\<close>

text \<open>
  Modelled from the spec: the persistence client \<^verbatim>\<open>services/prisma.js\<close> and its schema
  are not part of the sources. The tables and operations below follow the list of
  required operations of the specification (upsert player by username, create round,
  create position, update position, increment or decrement the player counters, create
  and bulk-delete lobby entries, fetch player by id) and the calls the orchestrator makes.
  A table is the list of its rows. The player table is addressed by \<^verbatim>\<open>id\<close> and by
  \<^verbatim>\<open>username\<close>, each of which identifies one row: an update of a player that is not
  there fails, and so does an upsert that would give two rows the same id. Counters of a
  new player start at 0. Whether the database accepts the lobby entry that \<^verbatim>\<open>joinLobby\<close>
  writes after it has added the player to the roster is a parameter of that write.
\<close>

record PlayerRow =
  rowId :: string
  rowUsername :: string
  demoBalance :: real
  totalPnl :: real
  gamesPlayed :: nat
  gamesWon :: nat
  gamesLost :: nat

record PositionRow =
  posRoundId :: string
  posPlayerId :: string
  posPositionType :: PositionType
  posEntryAmount :: real
  posLiquidated :: bool
  posDidShoot :: bool
  posShotAt :: "int option"
  posExitPrice :: "real option"
  posPnl :: "real option"

record RoundRow =
  rrId :: string
  rrPair :: string
  rrEntryPrice :: real
  rrLeverage :: real
  durationSeconds :: real
  startedAt :: int
  status :: string
  rrExitPrice :: "real option"
  endedAt :: "int option"

record Db =
  playerTable :: "PlayerRow list"
  roundTable :: "RoundRow list"
  positionTable :: "PositionRow list"
  lobbyEntryTable :: "(string \<times> real) list"

definition playerFindUnique :: "string \<Rightarrow> Db \<Rightarrow> PlayerRow option" where
  "playerFindUnique pid d = find (\<lambda>r. rowId r = pid) (playerTable d)"

definition playerUpdate :: "string \<Rightarrow> (PlayerRow \<Rightarrow> PlayerRow) \<Rightarrow> Db \<Rightarrow> Db option" where
  "playerUpdate pid f d =
     (case playerFindUnique pid d of
        None \<Rightarrow> None
      | Some _ \<Rightarrow>
          Some (d\<lparr>playerTable := map (\<lambda>r. if rowId r = pid then f r else r) (playerTable d)\<rparr>))"

definition playerUpsert :: "string \<Rightarrow> string \<Rightarrow> real \<Rightarrow> Db \<Rightarrow> (PlayerRow \<times> Db) option" where
  "playerUpsert uname pid defaultBalance d =
     (case find (\<lambda>r. rowUsername r = uname) (playerTable d) of
        Some r \<Rightarrow>
          if find (\<lambda>q. rowId q = pid \<and> rowUsername q \<noteq> uname) (playerTable d) \<noteq> None
          then None
          else Some (r\<lparr>rowId := pid\<rparr>,
                     d\<lparr>playerTable :=
                          map (\<lambda>q. if rowUsername q = uname then q\<lparr>rowId := pid\<rparr> else q)
                              (playerTable d)\<rparr>)
      | None \<Rightarrow>
          if playerFindUnique pid d \<noteq> None then None
          else (let r = \<lparr>rowId = pid, rowUsername = uname, demoBalance = defaultBalance,
                          totalPnl = 0, gamesPlayed = 0, gamesWon = 0, gamesLost = 0\<rparr>
                in Some (r, d\<lparr>playerTable := playerTable d @ [r]\<rparr>)))"

definition positionCreate :: "string \<Rightarrow> string \<Rightarrow> PositionType \<Rightarrow> real \<Rightarrow> Db \<Rightarrow> Db" where
  "positionCreate rid pid side amount d =
     d\<lparr>positionTable := positionTable d @
          [\<lparr>posRoundId = rid, posPlayerId = pid, posPositionType = side,
            posEntryAmount = amount, posLiquidated = False, posDidShoot = False,
            posShotAt = None, posExitPrice = None, posPnl = None\<rparr>]\<rparr>"

definition positionUpdateMany ::
  "string \<Rightarrow> string \<Rightarrow> (PositionRow \<Rightarrow> PositionRow) \<Rightarrow> Db \<Rightarrow> Db" where
  "positionUpdateMany rid pid f d =
     d\<lparr>positionTable :=
          map (\<lambda>r. if posRoundId r = rid \<and> posPlayerId r = pid then f r else r)
              (positionTable d)\<rparr>"

definition roundCreate :: "string \<Rightarrow> string \<Rightarrow> real \<Rightarrow> real \<Rightarrow> real \<Rightarrow> int \<Rightarrow> Db \<Rightarrow> Db" where
  "roundCreate rid pair' entryPrice' leverage' duration' now d =
     d\<lparr>roundTable := roundTable d @
          [\<lparr>rrId = rid, rrPair = pair', rrEntryPrice = entryPrice', rrLeverage = leverage',
            durationSeconds = duration', startedAt = now, status = ''active'',
            rrExitPrice = None, endedAt = None\<rparr>]\<rparr>"

definition roundUpdate :: "string \<Rightarrow> (RoundRow \<Rightarrow> RoundRow) \<Rightarrow> Db \<Rightarrow> Db option" where
  "roundUpdate rid f d =
     (case find (\<lambda>r. rrId r = rid) (roundTable d) of
        None \<Rightarrow> None
      | Some _ \<Rightarrow>
          Some (d\<lparr>roundTable := map (\<lambda>r. if rrId r = rid then f r else r) (roundTable d)\<rparr>))"

definition lobbyEntryCreate :: "bool \<Rightarrow> string \<Rightarrow> real \<Rightarrow> Db \<Rightarrow> Db option" where
  "lobbyEntryCreate accepted pid amount d =
     (if accepted then Some (d\<lparr>lobbyEntryTable := lobbyEntryTable d @ [(pid, amount)]\<rparr>)
      else None)"

definition lobbyEntryDeleteMany :: "string list \<Rightarrow> Db \<Rightarrow> Db" where
  "lobbyEntryDeleteMany pids d =
     d\<lparr>lobbyEntryTable := filter (\<lambda>(pid, amount). pid \<notin> set pids) (lobbyEntryTable d)\<rparr>"

subsection \<open>Events and errors\<close>

text \<open>
  Each constructor of \<open>Event\<close> is one event name of the \<^verbatim>\<open>EventEmitter\<close>, with the
  fields of its payload in the order of the source. The errors are the \<^verbatim>\<open>throw\<close>
  statements of the orchestrator, the failures of the persistence layer, and the
  \<^verbatim>\<open>TypeError\<close> of reading a field of \<^verbatim>\<open>undefined\<close>.
\<close>

datatype Event =
    LobbyStart int int
  | LobbyUpdate int nat real "LobbyPlayer list"
  | RoundStart string string real real real real "(string \<times> PositionType \<times> real) list"
  | PlayerLiquidated string string real real
  | PriceUpdate string string real "(string \<times> real \<times> real \<times> bool) list"
  | PlayerShoot string string real real real real
  | RoundEnd string string real string "(string \<times> real \<times> real \<times> bool) list"
  | LobbyPlayerJoined string string real real

datatype Error =
    CannotJoinDuringRound
  | MinimumBet
  | AlreadyInLobby
  | InsufficientBalance
  | NoActiveRound
  | RoundIdMismatch
  | PositionNotFound
  | AlreadyShot
  | PositionLiquidated
  | RecordNotFound
  | UniqueConstraintFailed
  | WriteRejected
  | TypeError

subsection \<open>The state of \<^verbatim>\<open>GameStateManager\<close>\<close>

text \<open>
  The four fields of \<^verbatim>\<open>gameState\<close> are fields of the state itself. A timer is known
  by the lobby or round that armed it: lobbies are numbered by \<open>lobbySeq\<close> (a counter
  the source does not have), \<open>lobbyTimer\<close> holds the number of the lobby whose timeout
  was stored last, \<open>roundTimer\<close> the id of the round whose timeout was stored last,
  \<open>priceUnsubscribe\<close> the pair of the subscription, and \<open>lobbyUpdateIntervals\<close> lists
  the lobbies whose \<^verbatim>\<open>lobbyUpdateInterval\<close> has not been cleared. The database and the
  events emitted so far are part of the state.
\<close>

record State =
  phase :: GamePhase
  currentRound :: "RoundState option"
  lobbyStartTime :: "int option"
  lobbyEndTime :: "int option"
  lobbyPlayers :: "(string \<times> LobbyPlayer) list"
  lobbyTimer :: "nat option"
  roundTimer :: "string option"
  priceUnsubscribe :: "string option"
  lobbySeq :: nat
  lobbyUpdateIntervals :: "nat list"
  db :: Db
  emitted :: "Event list"

definition emit :: "Event \<Rightarrow> State \<Rightarrow> State" where
  "emit e s = s\<lparr>emitted := emitted s @ [e]\<rparr>"

subsection \<open>Lobby\<close>

definition startLobby :: "Config \<Rightarrow> int \<Rightarrow> State \<Rightarrow> State" where
  "startLobby cfg now s =
     (let s1 = s\<lparr>phase := LOBBY, currentRound := None, lobbyStartTime := Some now,
                  lobbyEndTime := Some (now + LOBBY_DURATION_SECONDS cfg * 1000),
                  lobbyPlayers := []\<rparr>;
          s2 = emit (LobbyStart (now + LOBBY_DURATION_SECONDS cfg * 1000)
                                (LOBBY_DURATION_SECONDS cfg)) s1;
          n = Suc (lobbySeq s2)
      in s2\<lparr>lobbySeq := n, lobbyTimer := Some n,
             lobbyUpdateIntervals := lobbyUpdateIntervals s2 @ [n]\<rparr>)"

text \<open>
  One run of the callback of the interval that lobby \<open>n\<close> created. An interval that has
  been cleared does not run. \<^verbatim>\<open>lobbyEndTime!\<close> is read as a number, \<^verbatim>\<open>null\<close> counting
  as 0.
\<close>

definition lobbyUpdateInterval :: "nat \<Rightarrow> int \<Rightarrow> State \<Rightarrow> State" where
  "lobbyUpdateInterval n now s =
     (if n \<notin> set (lobbyUpdateIntervals s) then s
      else if phase s \<noteq> LOBBY
      then s\<lparr>lobbyUpdateIntervals := removeAll n (lobbyUpdateIntervals s)\<rparr>
      else (let secondsRemaining =
                  max 0 \<lceil>real_of_int ((case lobbyEndTime s of Some e \<Rightarrow> e | None \<Rightarrow> 0) - now)
                           / 1000\<rceil>;
                totalWagered' = foldl (\<lambda>sum p. sum + lobbyBetAmount p) 0
                                      (map snd (lobbyPlayers s))
            in emit (LobbyUpdate secondsRemaining (length (lobbyPlayers s)) totalWagered'
                                 (map snd (lobbyPlayers s))) s))"

text \<open>
  \<open>accepted\<close> tells whether the awaited \<^verbatim>\<open>prisma.lobbyEntry.create\<close> resolves; when it
  rejects, the exception leaves \<^verbatim>\<open>joinLobby\<close> after the roster has been written.
\<close>

definition joinLobby ::
  "Config \<Rightarrow> string \<Rightarrow> string \<Rightarrow> real \<Rightarrow> int \<Rightarrow> bool \<Rightarrow> State \<Rightarrow> Error option \<times> State" where
  "joinLobby cfg pid uname bet now accepted s =
     (if phase s \<noteq> LOBBY then (Some CannotJoinDuringRound, s)
      else if bet < MIN_BET_AMOUNT cfg then (Some MinimumBet, s)
      else if mapHas (lobbyPlayers s) pid then (Some AlreadyInLobby, s)
      else (case playerUpsert uname pid (DEFAULT_DEMO_BALANCE cfg) (db s) of
              None \<Rightarrow> (Some UniqueConstraintFailed, s)
            | Some (player, d1) \<Rightarrow>
                (let s1 = s\<lparr>db := d1\<rparr>
                 in if demoBalance player < bet then (Some InsufficientBalance, s1)
                    else (let s2 = s1\<lparr>lobbyPlayers :=
                                         mapSet pid
                                           \<lparr>lobbyPlayerId = pid, username = uname,
                                            lobbyBetAmount = bet, balance = demoBalance player,
                                            joinedAt = now\<rparr>
                                           (lobbyPlayers s1)\<rparr>
                          in case lobbyEntryCreate accepted pid bet (db s2) of
                               None \<Rightarrow> (Some WriteRejected, s2)
                             | Some d3 \<Rightarrow>
                                 (None, emit (LobbyPlayerJoined pid uname bet
                                                                (demoBalance player))
                                             (s2\<lparr>db := d3\<rparr>))))))"

subsection \<open>Round start\<close>

text \<open>
  The loop of \<^verbatim>\<open>startRound\<close> over the assignments: it fills the local map \<open>positions\<close>,
  creates the position row and deducts the bet. A rejected \<^verbatim>\<open>await\<close> ends the loop.
\<close>

fun createPositions ::
  "string \<Rightarrow> real \<Rightarrow> (string \<times> LobbyPlayer) list \<Rightarrow> (string \<times> PositionType) list \<Rightarrow>
   (string \<times> PlayerPosition) list \<Rightarrow> Db \<Rightarrow> Error option \<times> (string \<times> PlayerPosition) list \<times> Db" where
  "createPositions rid entryPrice' lobby [] acc d = (None, acc, d)"
| "createPositions rid entryPrice' lobby ((pid, side) # rest) acc d =
     (case mapGet lobby pid of
        None \<Rightarrow> (Some TypeError, acc, d)
      | Some lobbyPlayer \<Rightarrow>
          (let acc1 = mapSet pid
                        \<lparr>playerId = pid, positionType = side,
                         betAmount = lobbyBetAmount lobbyPlayer, entryPrice = entryPrice',
                         currentPnl = 0, liquidated = False, didShoot = False, shotAt = None\<rparr>
                        acc;
               d1 = positionCreate rid pid side (lobbyBetAmount lobbyPlayer) d
           in case playerUpdate pid
                     (\<lambda>r. r\<lparr>demoBalance := demoBalance r - lobbyBetAmount lobbyPlayer\<rparr>) d1 of
                None \<Rightarrow> (Some RecordNotFound, acc1, d1)
              | Some d2 \<Rightarrow> createPositions rid entryPrice' lobby rest acc1 d2))"

text \<open>
  \<open>duration'\<close> is the result of \<^verbatim>\<open>generateRandomDuration\<close>, \<open>priceResult\<close> that of
  \<^verbatim>\<open>getCurrentPrice\<close> (\<open>None\<close> when it timed out), \<open>rid\<close> the id the database gave the
  new round, \<open>shuffle\<close> the random order of \<^verbatim>\<open>assignRandomPositions\<close>.
\<close>

definition startRound ::
  "Config \<Rightarrow> string \<Rightarrow> int \<Rightarrow> real \<Rightarrow> real option \<Rightarrow> string \<Rightarrow> (string list \<Rightarrow> string list) \<Rightarrow>
   State \<Rightarrow> Error option \<times> State" where
  "startRound cfg pair' now duration' priceResult rid shuffle s =
     (let leverage' = DEFAULT_LEVERAGE cfg
      in case priceResult of
           None \<Rightarrow> (None, startLobby cfg now s)
         | Some entryPrice' \<Rightarrow>
             (let totalWagered' = foldl (\<lambda>sum p. sum + lobbyBetAmount p) 0
                                        (map snd (lobbyPlayers s));
                  d0 = roundCreate rid pair' entryPrice' leverage' duration' now (db s);
                  playerIds = map fst (lobbyPlayers s);
                  positionAssignments = assignRandomPositions shuffle playerIds
              in case createPositions rid entryPrice' (lobbyPlayers s) positionAssignments [] d0 of
                   (Some e, positions', d1) \<Rightarrow> (Some e, s\<lparr>db := d1\<rparr>)
                 | (None, positions', d1) \<Rightarrow>
                     (let s1 = s\<lparr>db := lobbyEntryDeleteMany playerIds d1, phase := ROUND,
                                  currentRound :=
                                    Some \<lparr>roundId = rid, pair = pair',
                                          roundEntryPrice = entryPrice',
                                          currentPrice = entryPrice', leverage = leverage',
                                          startTime = now, endTime = None,
                                          duration = duration', totalWagered = totalWagered',
                                          positions = positions'\<rparr>,
                                  lobbyPlayers := []\<rparr>;
                          s2 = emit (RoundStart rid pair' entryPrice' leverage' duration'
                                       totalWagered'
                                       (map (\<lambda>(pid, pos). (pid, positionType pos, betAmount pos))
                                            positions')) s1
                      in (None, s2\<lparr>priceUnsubscribe := Some pair', roundTimer := Some rid\<rparr>))))"

text \<open>
  \<open>selectedPair\<close> is the result of
  \<^verbatim>\<open>selectRandomPair(volatilityService.getHighVolatilityPairs())\<close>.
\<close>

definition endLobby ::
  "Config \<Rightarrow> int \<Rightarrow> string option \<Rightarrow> real \<Rightarrow> real option \<Rightarrow> string \<Rightarrow>
   (string list \<Rightarrow> string list) \<Rightarrow> State \<Rightarrow> Error option \<times> State" where
  "endLobby cfg now selectedPair duration' priceResult rid shuffle s =
     (if length (lobbyPlayers s) = 0 then (None, startLobby cfg now s)
      else case selectedPair of
             None \<Rightarrow> (None, startLobby cfg now s)
           | Some pair' \<Rightarrow> startRound cfg pair' now duration' priceResult rid shuffle s)"

subsection \<open>Round: price ticks\<close>

text \<open>
  The body of the loop of \<^verbatim>\<open>handlePriceUpdate\<close> for the entry with key \<open>pid\<close>, on the
  round, the events and the database. The two database writes of a liquidation are not
  awaited and their failure is only logged.
\<close>

definition tickPosition ::
  "real \<Rightarrow> string \<Rightarrow> RoundState \<times> Event list \<times> Db \<Rightarrow> RoundState \<times> Event list \<times> Db" where
  "tickPosition price pid = (\<lambda>(round', events, d).
     (case mapGet (positions round') pid of
        None \<Rightarrow> (round', events, d)
      | Some position \<Rightarrow>
          if liquidated position \<or> didShoot position then (round', events, d)
          else (let pnl = calculatePnL (positionType position) (entryPrice position) price
                                       (betAmount position) (leverage round');
                    position1 = position\<lparr>currentPnl := pnl\<rparr>
                in if isLiquidated (positionType position1) (entryPrice position1) price
                                   (leverage round')
                   then (let position2 = position1\<lparr>liquidated := True\<rparr>;
                             d1 = positionUpdateMany (roundId round') pid
                                    (\<lambda>r. r\<lparr>posLiquidated := True,
                                            posPnl := Some (- betAmount position2),
                                            posExitPrice := Some price\<rparr>) d;
                             d2 = (case playerUpdate pid
                                          (\<lambda>r. r\<lparr>totalPnl := totalPnl r - betAmount position2,
                                                  gamesLost := gamesLost r + 1\<rparr>) d1 of
                                     None \<Rightarrow> d1
                                   | Some d' \<Rightarrow> d')
                         in (round'\<lparr>positions := mapSet pid position2 (positions round')\<rparr>,
                             events @ [PlayerLiquidated pid (roundId round') price
                                                        (betAmount position2)],
                             d2))
                   else (round'\<lparr>positions := mapSet pid position1 (positions round')\<rparr>,
                         events, d))))"

definition handlePriceUpdate :: "real \<Rightarrow> State \<Rightarrow> State" where
  "handlePriceUpdate price s =
     (if phase s \<noteq> ROUND then s
      else case currentRound s of
             None \<Rightarrow> s
           | Some round' \<Rightarrow>
               (case fold (tickPosition price) (map fst (positions round'))
                          (round'\<lparr>currentPrice := price\<rparr>, emitted s, db s) of
                  (round2, events, d) \<Rightarrow>
                    s\<lparr>currentRound := Some round2,
                      db := d,
                      emitted := events @
                        [PriceUpdate (roundId round2) (pair round2) price
                           (map (\<lambda>(pid, pos).
                                   (pid, currentPnl pos,
                                    calculatePnLPercentage (currentPnl pos) (betAmount pos),
                                    liquidated pos))
                                (positions round2))]\<rparr>))"

subsection \<open>Round: shoot\<close>

definition shoot :: "string \<Rightarrow> string \<Rightarrow> int \<Rightarrow> State \<Rightarrow> Error option \<times> State" where
  "shoot pid rid now s =
     (if phase s \<noteq> ROUND then (Some NoActiveRound, s)
      else case currentRound s of
        None \<Rightarrow> (Some NoActiveRound, s)
      | Some round' \<Rightarrow>
          if roundId round' \<noteq> rid then (Some RoundIdMismatch, s)
          else case mapGet (positions round') pid of
            None \<Rightarrow> (Some PositionNotFound, s)
          | Some position \<Rightarrow>
              if didShoot position then (Some AlreadyShot, s)
              else if liquidated position then (Some PositionLiquidated, s)
              else (let position' = position\<lparr>didShoot := True, shotAt := Some now\<rparr>;
                        s1 = s\<lparr>currentRound :=
                                 Some (round'\<lparr>positions := mapSet pid position' (positions round')\<rparr>)\<rparr>;
                        exitPrice = currentPrice round';
                        pnl = currentPnl position';
                        payout = calculatePayout (betAmount position') pnl True False;
                        d1 = positionUpdateMany rid pid
                               (\<lambda>r. r\<lparr>posDidShoot := True, posShotAt := Some now,
                                       posExitPrice := Some exitPrice, posPnl := Some pnl\<rparr>)
                               (db s1)
                    in case playerUpdate pid
                              (\<lambda>r. r\<lparr>demoBalance := demoBalance r + payout,
                                      totalPnl := totalPnl r + pnl\<rparr>) d1 of
                         None \<Rightarrow> (Some RecordNotFound, s1\<lparr>db := d1\<rparr>)
                       | Some d2 \<Rightarrow>
                           (let newBalance = (case playerFindUnique pid d2 of
                                                Some player \<Rightarrow> demoBalance player
                                              | None \<Rightarrow> 0)
                            in (None, emit (PlayerShoot pid rid exitPrice pnl payout newBalance)
                                           (s1\<lparr>db := d2\<rparr>)))))"

subsection \<open>Round end\<close>

text \<open>
  The loop of \<^verbatim>\<open>endRound\<close> over all positions of the round, with the list \<open>payouts\<close> and
  the database. A rejected \<^verbatim>\<open>await\<close> ends the loop.
\<close>

fun settlePositions ::
  "RoundState \<Rightarrow> real \<Rightarrow> (string \<times> PlayerPosition) list \<Rightarrow> (string \<times> real \<times> real \<times> bool) list \<Rightarrow>
   Db \<Rightarrow> Error option \<times> (string \<times> real \<times> real \<times> bool) list \<times> Db" where
  "settlePositions round' finalPrice [] payouts d = (None, payouts, d)"
| "settlePositions round' finalPrice ((pid, position) # rest) payouts d =
     (let pnl = (if didShoot position \<or> liquidated position then currentPnl position
                 else calculatePnL (positionType position) (entryPrice position) finalPrice
                                   (betAmount position) (leverage round'));
          payout = calculatePayout (betAmount position) pnl (didShoot position)
                                   (liquidated position);
          payouts1 = payouts @ [(pid, payout, pnl, didShoot position)];
          d1 = positionUpdateMany (roundId round') pid
                 (\<lambda>r. r\<lparr>posExitPrice := Some finalPrice, posPnl := Some pnl\<rparr>) d;
          balanceChange = payout;
          pnlChange = pnl
      in case playerUpdate pid
                (\<lambda>r. r\<lparr>demoBalance := demoBalance r + balanceChange,
                        totalPnl := totalPnl r + pnlChange,
                        gamesPlayed := gamesPlayed r + 1,
                        gamesWon := (if pnl > 0 then gamesWon r + 1 else gamesWon r),
                        gamesLost := (if pnl > 0 then gamesLost r
                                      else if pnl < 0 then gamesLost r + 1 else gamesLost r)\<rparr>)
                d1 of
           None \<Rightarrow> (Some RecordNotFound, payouts1, d1)
         | Some d2 \<Rightarrow> settlePositions round' finalPrice rest payouts1 d2)"

definition endRound :: "Config \<Rightarrow> string \<Rightarrow> int \<Rightarrow> State \<Rightarrow> Error option \<times> State" where
  "endRound cfg reason now s =
     (if phase s \<noteq> ROUND then (None, s)
      else case currentRound s of
        None \<Rightarrow> (None, s)
      | Some round' \<Rightarrow>
          (let finalPrice = currentPrice round';
               s1 = s\<lparr>priceUnsubscribe := None\<rparr>
           in case settlePositions round' finalPrice (positions round') [] (db s1) of
                (Some e, payouts, d1) \<Rightarrow> (Some e, s1\<lparr>db := d1\<rparr>)
              | (None, payouts, d1) \<Rightarrow>
                  (case roundUpdate (roundId round')
                          (\<lambda>r. r\<lparr>rrExitPrice := Some finalPrice, endedAt := Some now,
                                  status := ''completed''\<rparr>) d1 of
                     None \<Rightarrow> (Some RecordNotFound, s1\<lparr>db := d1\<rparr>)
                   | Some d2 \<Rightarrow>
                       (None, startLobby cfg now
                                (emit (RoundEnd (roundId round') (pair round') finalPrice reason
                                                payouts)
                                      (s1\<lparr>db := d2\<rparr>))))))"

subsection \<open>Balance query\<close>

definition getPlayerBalance :: "string \<Rightarrow> State \<Rightarrow> (real \<times> real \<times> nat) option" where
  "getPlayerBalance pid s =
     (case playerFindUnique pid (db s) of
        None \<Rightarrow> None
      | Some player \<Rightarrow> Some (demoBalance player, totalPnl player, gamesPlayed player))"

subsection \<open>Events that reach the orchestrator while a round is active\<close>

text \<open>
  Between the start of a round and its end the orchestrator receives price ticks, the
  commands of the players and the runs of the lobby intervals that are still alive. The
  result of a command goes back to its caller; the state is what the next event sees.
\<close>

datatype Input =
    Tick real
  | Shoot string string int
  | Join string string real int bool
  | IntervalFires nat int

fun step :: "Config \<Rightarrow> Input \<Rightarrow> State \<Rightarrow> State" where
  "step cfg (Tick price) s = handlePriceUpdate price s"
| "step cfg (Shoot pid rid now) s = snd (shoot pid rid now s)"
| "step cfg (Join pid uname bet now accepted) s =
     snd (joinLobby cfg pid uname bet now accepted s)"
| "step cfg (IntervalFires n now) s = lobbyUpdateInterval n now s"

definition run :: "Config \<Rightarrow> Input list \<Rightarrow> State \<Rightarrow> State" where
  "run cfg inputs s = fold (step cfg) inputs s"

text \<open>An input is a price tick or not.\<close>

fun isTick :: "Input \<Rightarrow> bool" where
  "isTick (Tick price) = True"
| "isTick (Shoot pid rid now) = False"
| "isTick (Join pid uname bet now accepted) = False"
| "isTick (IntervalFires n now) = False"

text \<open>The position of a player in the active round, if there is one.\<close>

definition positionOf :: "string \<Rightarrow> State \<Rightarrow> PlayerPosition option" where
  "positionOf pid s =
     (case currentRound s of None \<Rightarrow> None | Some round' \<Rightarrow> mapGet (positions round') pid)"

text \<open>The state of the manager after its constructor, on an empty database.\<close>

definition initialState :: "Config \<Rightarrow> int \<Rightarrow> State" where
  "initialState cfg now =
     \<lparr>phase = LOBBY, currentRound = None, lobbyStartTime = Some now,
      lobbyEndTime = Some (now + LOBBY_DURATION_SECONDS cfg * 1000), lobbyPlayers = [],
      lobbyTimer = None, roundTimer = None, priceUnsubscribe = None, lobbySeq = 0,
      lobbyUpdateIntervals = [],
      db = \<lparr>playerTable = [], roundTable = [], positionTable = [], lobbyEntryTable = []\<rparr>,
      emitted = []\<rparr>"

subsection \<open>A game of two players\<close>

text \<open>
  The states of one game under the default configuration, used as concrete inputs: two
  players join the first lobby with bets 10 and 20; the lobby timer expires, the pair
  \<^verbatim>\<open>BTC/USD\<close> is selected, the entry price is 100 and the shuffle leaves the order of
  the roster, so that \<open>p1\<close> is LONG and \<open>p2\<close> is SHORT; a tick at 100.1 arrives; \<open>p1\<close>
  shoots. \<open>demoRestart\<close> is the state after the timer of an empty first lobby expired.
\<close>

definition demoLobby :: State where
  "demoLobby =
     snd (joinLobby defaultConfig ''p2'' ''bob'' 20 2000 True
       (snd (joinLobby defaultConfig ''p1'' ''alice'' 10 1000 True
         (startLobby defaultConfig 0 (initialState defaultConfig 0)))))"

definition demoStart :: State where
  "demoStart =
     snd (endLobby defaultConfig 20000 (Some ''BTC/USD'') 30 (Some 100) ''r1'' (\<lambda>xs. xs)
            demoLobby)"

definition demoRound :: State where
  "demoRound = handlePriceUpdate (1001 / 10) demoStart"

definition demoShot :: State where
  "demoShot = snd (shoot ''p1'' ''r1'' 25000 demoRound)"

definition demoRestart :: State where
  "demoRestart =
     snd (endLobby defaultConfig 20000 None 30 None ''r1'' (\<lambda>xs. xs)
       (startLobby defaultConfig 0 (initialState defaultConfig 0)))"

section \<open>Properties of the calculation engine\<close>

text \<open>
  C4. The payout is 0 for a liquidated position and \<open>max 0 (betAmount + pnl)\<close> otherwise;
  it is never negative, whatever the sign of the P&L, and the \<open>didShoot\<close> argument has no
  influence on it.
\<close>

theorem calculatePayout_formula:
  "calculatePayout betAmount' pnl d True = 0
   \<and> calculatePayout betAmount' pnl d False = max 0 (betAmount' + pnl)
   \<and> 0 \<le> calculatePayout betAmount' pnl d l
   \<and> calculatePayout betAmount' pnl d l = calculatePayout betAmount' pnl d' l"
  by (simp add: calculatePayout_def)

lemma liquidationPrice_SHORT_100_10:
  "calculateLiquidationPrice SHORT 100 10 = 7740561859543041 / 70368744177664"
  by (simp add: calculateLiquidationPrice_def fl_def roundTiesToEven_def pow2_def
                eval_nat_numeral Let_def)

text \<open>
  C5. With the thresholds read as exact arithmetic the equivalence fails: for a SHORT
  position entered at 100 with leverage 10 the exact threshold \<open>100 * (1 + 1 / 10)\<close> is
  110, the three rounded operations give a liquidation price just above 110, and at the
  price 110 the position is not liquidated.
\<close>

theorem isLiquidated_exact_boundary_counterexample:
  "\<not> (isLiquidated SHORT 100 110 10 = ((110::real) \<ge> 100 * (1 + 1 / 10)))"
  by (simp add: isLiquidated_def liquidationPrice_SHORT_100_10)

text \<open>
  C5, as the code has it. For a positive leverage a LONG position is liquidated exactly
  when the current price is at or below the liquidation price that
  \<^verbatim>\<open>calculateLiquidationPrice\<close> computes, \<open>entryPrice * (1 - 1 / leverage)\<close> with each of
  its three operations rounded to a double, and a SHORT position exactly when it is at or
  above the rounded \<open>entryPrice * (1 + 1 / leverage)\<close>; at the computed liquidation price
  itself both sides are liquidated. Where none of the three operations rounds, the
  thresholds are the exact ones.
\<close>

theorem isLiquidated_closed_boundary:
  assumes "0 < lev"
  shows "isLiquidated LONG entry cur lev = (cur \<le> fl (entry * fl (1 - fl (1 / lev))))
       \<and> isLiquidated SHORT entry cur lev = (cur \<ge> fl (entry * fl (1 + fl (1 / lev))))
       \<and> isLiquidated LONG entry cur lev = (cur \<le> calculateLiquidationPrice LONG entry lev)
       \<and> isLiquidated SHORT entry cur lev = (cur \<ge> calculateLiquidationPrice SHORT entry lev)
       \<and> isLiquidated side entry (calculateLiquidationPrice side entry lev) lev
       \<and> (fl (1 / lev) = 1 / lev \<and> fl (1 - 1 / lev) = 1 - 1 / lev
            \<and> fl (entry * (1 - 1 / lev)) = entry * (1 - 1 / lev)
          \<longrightarrow> isLiquidated LONG entry cur lev = (cur \<le> entry * (1 - 1 / lev)))
       \<and> (fl (1 / lev) = 1 / lev \<and> fl (1 + 1 / lev) = 1 + 1 / lev
            \<and> fl (entry * (1 + 1 / lev)) = entry * (1 + 1 / lev)
          \<longrightarrow> isLiquidated SHORT entry cur lev = (cur \<ge> entry * (1 + 1 / lev)))"
  by (simp add: isLiquidated_def calculateLiquidationPrice_def)

theorem isLiquidated_closed_boundary_witness:
  "(0::real) < 4
   \<and> isLiquidated LONG 100 75 4 \<and> \<not> isLiquidated LONG 100 76 4
   \<and> isLiquidated SHORT 100 125 4 \<and> \<not> isLiquidated SHORT 100 124 4
   \<and> isLiquidated SHORT 100 (calculateLiquidationPrice SHORT 100 4) 4"
proof -
  have q: "fl (1 / 4) = 1 / 4"
    by (simp add: fl_def roundTiesToEven_def pow2_def eval_nat_numeral Let_def)
  have l1: "fl (3 / 4) = 3 / 4"
    by (simp add: fl_def roundTiesToEven_def pow2_def eval_nat_numeral Let_def)
  have l2: "fl 75 = 75"
    by (simp add: fl_def roundTiesToEven_def pow2_def eval_nat_numeral Let_def)
  have s1: "fl (5 / 4) = 5 / 4"
    by (simp add: fl_def roundTiesToEven_def pow2_def eval_nat_numeral Let_def)
  have s2: "fl 125 = 125"
    by (simp add: fl_def roundTiesToEven_def pow2_def eval_nat_numeral Let_def)
  from isLiquidated_closed_boundary [of 4 100 75 SHORT]
       isLiquidated_closed_boundary [of 4 100 76 SHORT]
       isLiquidated_closed_boundary [of 4 100 125 SHORT]
       isLiquidated_closed_boundary [of 4 100 124 SHORT]
  show ?thesis using q l1 l2 s1 s2 by simp
qed

text \<open>
  C6. For a non-zero entry price the P&L of a LONG position is
  \<open>betAmount * ((currentPrice - entryPrice) / entryPrice) * leverage\<close> and that of a SHORT
  position is its negation; at entry 100, current 110, bet 10 and leverage 500 this is
  500 for LONG and -500 for SHORT.
\<close>

theorem calculatePnL_formula:
  assumes "entry \<noteq> 0"
  shows "calculatePnL LONG entry cur bet lev = bet * ((cur - entry) / entry) * lev
       \<and> calculatePnL SHORT entry cur bet lev = - (bet * ((cur - entry) / entry) * lev)
       \<and> calculatePnL LONG 100 110 10 500 = 500
       \<and> calculatePnL SHORT 100 110 10 500 = - 500"
  by (simp add: calculatePnL_def)

theorem calculatePnL_formula_witness:
  "(100::real) \<noteq> 0
   \<and> calculatePnL LONG 100 110 10 500 = 10 * ((110 - 100) / 100) * 500
   \<and> calculatePnL SHORT 100 110 10 500 = - (10 * ((110 - 100) / 100) * 500)"
  using calculatePnL_formula [of 100 110 10 500] by simp

section \<open>Lemmas on \<open>mapSet\<close> and \<open>mapGet\<close>\<close>

lemma mapSet_absent: "k \<notin> fst ` set kvs \<Longrightarrow> mapSet k v kvs = kvs @ [(k, v)]"
  by (induction kvs) auto

lemma mapGet_mapSet:
  "mapGet (mapSet k v kvs) k' = (if k' = k then Some v else mapGet kvs k')"
  by (induction kvs) (auto simp: mapGet_def)

lemma mapGet_Some_key: "mapGet kvs k = Some v \<Longrightarrow> k \<in> set (map fst kvs)"
  unfolding mapGet_def by (metis map_of_eq_None_iff option.distinct(1) set_map)

lemma mapHas_iff: "mapHas kvs k = (k \<in> fst ` set kvs)"
  by (simp add: mapHas_def map_of_eq_None_iff)

section \<open>Position assignment\<close>

lemma fold_mapSet_fresh:
  "distinct xs \<Longrightarrow> set xs \<inter> fst ` set acc = {} \<Longrightarrow>
   fold (\<lambda>(index, p) positions. mapSet p (g index) positions) (enumerate n xs) acc
     = acc @ map (\<lambda>(index, p). (p, g index)) (enumerate n xs)"
proof (induction xs arbitrary: n acc)
  case Nil
  then show ?case by simp
next
  case (Cons x xs)
  from Cons.prems have fresh: "x \<notin> fst ` set acc" by auto
  from Cons.prems have "set xs \<inter> fst ` set (acc @ [(x, g n)]) = {}" by auto
  with Cons.prems Cons.IH [of "acc @ [(x, g n)]" "Suc n"] fresh show ?case
    by (simp add: mapSet_absent)
qed

lemma enumerate_split_sides:
  "map (\<lambda>(index, p). (p, if index < k then LONG else SHORT)) (enumerate n xs)
     = map (\<lambda>p. (p, LONG)) (take (k - n) xs) @ map (\<lambda>p. (p, SHORT)) (drop (k - n) xs)"
proof (induction xs arbitrary: n)
  case Nil
  then show ?case by simp
next
  case (Cons x xs)
  show ?case
  proof (cases "n < k")
    case True
    then have "k - n = Suc (k - Suc n)" by simp
    with True Cons.IH [of "Suc n"] show ?thesis by simp
  next
    case False
    with Cons.IH [of "Suc n"] show ?thesis by simp
  qed
qed

lemma assignRandomPositions_split:
  assumes "distinct (shuffle playerIds)"
  shows "assignRandomPositions shuffle playerIds
       = map (\<lambda>p. (p, LONG)) (take (length (shuffle playerIds) div 2) (shuffle playerIds))
         @ map (\<lambda>p. (p, SHORT)) (drop (length (shuffle playerIds) div 2) (shuffle playerIds))"
  using fold_mapSet_fresh [of "shuffle playerIds" "[]"
          "\<lambda>i. if i < length (shuffle playerIds) div 2 then LONG else SHORT" 0]
    enumerate_split_sides [of "length (shuffle playerIds) div 2" 0 "shuffle playerIds"] assms
  by (simp add: assignRandomPositions_def Let_def)

text \<open>
  C9. For a list of \<open>n\<close> distinct player ids, whatever order the shuffle produces, the
  assignment holds every id exactly once (its keys are a rearrangement of the ids, without
  repetition), \<open>n div 2\<close> of the players are LONG and the other \<open>n - n div 2\<close> are SHORT,
  so the extra player of an odd roster is SHORT.
\<close>

theorem assignRandomPositions_balanced:
  assumes "distinct playerIds" and "mset (shuffle playerIds) = mset playerIds"
  shows "mset (map fst (assignRandomPositions shuffle playerIds)) = mset playerIds
       \<and> distinct (map fst (assignRandomPositions shuffle playerIds))
       \<and> length (filter (\<lambda>(p, side). side = LONG) (assignRandomPositions shuffle playerIds))
           = length playerIds div 2
       \<and> length (filter (\<lambda>(p, side). side = SHORT) (assignRandomPositions shuffle playerIds))
           = length playerIds - length playerIds div 2"
proof -
  let ?xs = "shuffle playerIds"
  have d: "distinct ?xs" using assms by (metis mset_eq_imp_distinct_iff)
  have len: "length ?xs = length playerIds" using assms(2) by (metis size_mset)
  note sp = assignRandomPositions_split [of shuffle playerIds, OF d]
  have keys: "map fst (assignRandomPositions shuffle playerIds) = ?xs"
  proof -
    have "map fst (assignRandomPositions shuffle playerIds)
            = take (length ?xs div 2) ?xs @ drop (length ?xs div 2) ?xs"
      unfolding sp by (simp add: comp_def)
    then show ?thesis by simp
  qed
  have "filter (\<lambda>(p, side). side = LONG) (assignRandomPositions shuffle playerIds)
          = map (\<lambda>p. (p, LONG)) (take (length ?xs div 2) ?xs)"
    unfolding sp by (simp add: filter_map comp_def)
  moreover have "filter (\<lambda>(p, side). side = SHORT) (assignRandomPositions shuffle playerIds)
          = map (\<lambda>p. (p, SHORT)) (drop (length ?xs div 2) ?xs)"
    unfolding sp by (simp add: filter_map comp_def)
  ultimately show ?thesis using keys d assms(2) len by simp
qed

theorem assignRandomPositions_balanced_witness:
  "distinct [''a'', ''b'', ''c''] \<and> mset (rev [''a'', ''b'', ''c'']) = mset [''a'', ''b'', ''c'']
   \<and> assignRandomPositions rev [''a'', ''b'', ''c'']
       = [(''c'', LONG), (''b'', SHORT), (''a'', SHORT)]
   \<and> length (filter (\<lambda>(p, side). side = LONG) (assignRandomPositions rev [''a'', ''b'', ''c'']))
       = 3 div 2
   \<and> length (filter (\<lambda>(p, side). side = SHORT) (assignRandomPositions rev [''a'', ''b'', ''c'']))
       = 3 - 3 div 2"
  using assignRandomPositions_balanced [of "[''a'', ''b'', ''c'']" rev]
  by (simp add: assignRandomPositions_def)

section \<open>Lemmas on the round orchestrator\<close>

subsection \<open>A closed position stays as it is\<close>

lemma tickPosition_closed:
  assumes "mapGet (positions (fst t)) pid = Some pos" and "liquidated pos \<or> didShoot pos"
  shows "mapGet (positions (fst (tickPosition price q t))) pid = Some pos"
proof (cases t)
  case (fields r ev d)
  show ?thesis
  proof (cases "q = pid")
    case True
    with assms fields show ?thesis by (auto simp: tickPosition_def)
  next
    case False
    with assms fields show ?thesis
      by (auto simp: tickPosition_def Let_def mapGet_mapSet split: option.splits)
  qed
qed

lemma fold_tickPosition_closed:
  assumes "mapGet (positions (fst t)) pid = Some pos" and "liquidated pos \<or> didShoot pos"
  shows "mapGet (positions (fst (fold (tickPosition price) keys t))) pid = Some pos"
  using assms by (induction keys arbitrary: t) (auto simp: tickPosition_closed)

lemma handlePriceUpdate_closed:
  assumes "positionOf pid s = Some pos" and "liquidated pos \<or> didShoot pos"
  shows "positionOf pid (handlePriceUpdate price s) = Some pos"
proof (cases "phase s = ROUND")
  case False
  with assms show ?thesis by (simp add: handlePriceUpdate_def)
next
  case True
  from assms(1) obtain r where r: "currentRound s = Some r" "mapGet (positions r) pid = Some pos"
    by (auto simp: positionOf_def split: option.splits)
  let ?t = "fold (tickPosition price) (map fst (positions r)) (r\<lparr>currentPrice := price\<rparr>, emitted s, db s)"
  have "mapGet (positions (fst ?t)) pid = Some pos"
    using r assms(2) by (intro fold_tickPosition_closed) auto
  with True r show ?thesis
    by (auto simp: handlePriceUpdate_def positionOf_def split: prod.splits)
qed

lemma shoot_closed_fails:
  assumes "positionOf pid s = Some pos" and "liquidated pos \<or> didShoot pos"
  shows "\<exists>e. shoot pid rid now s = (Some e, s)"
  using assms by (auto simp: shoot_def positionOf_def split: option.splits)

lemma shoot_closed:
  assumes "positionOf pid s = Some pos" and "liquidated pos \<or> didShoot pos"
  shows "positionOf pid (snd (shoot q rid now s)) = Some pos"
proof (cases "q = pid")
  case True
  with shoot_closed_fails [OF assms, of rid now] assms show ?thesis by auto
next
  case False
  with assms show ?thesis
    by (auto simp: shoot_def positionOf_def Let_def emit_def mapGet_mapSet split: option.splits)
qed

lemma joinLobby_currentRound: "currentRound (snd (joinLobby cfg pid uname bet now accepted s)) = currentRound s"
  by (auto simp: joinLobby_def Let_def emit_def split: option.splits)

lemma lobbyUpdateInterval_currentRound: "currentRound (lobbyUpdateInterval n now s) = currentRound s"
  by (auto simp: lobbyUpdateInterval_def Let_def emit_def)

lemma step_closed:
  assumes "positionOf pid s = Some pos" and "liquidated pos \<or> didShoot pos"
  shows "positionOf pid (step cfg i s) = Some pos"
proof (cases i)
  case (Tick price)
  with assms show ?thesis by (simp add: handlePriceUpdate_closed)
next
  case (Shoot q rid now)
  with assms show ?thesis by (simp add: shoot_closed)
next
  case (Join q uname bet now accepted)
  with assms show ?thesis by (simp add: positionOf_def joinLobby_currentRound)
next
  case (IntervalFires n now)
  with assms show ?thesis by (simp add: positionOf_def lobbyUpdateInterval_currentRound)
qed

lemma run_closed:
  assumes "positionOf pid s = Some pos" and "liquidated pos \<or> didShoot pos"
  shows "positionOf pid (run cfg inputs s) = Some pos"
  using assms unfolding run_def
  by (induction inputs arbitrary: s) (auto simp: step_closed)

subsection \<open>No position is both liquidated and shot\<close>

lemma tickPosition_exclusive:
  assumes "\<forall>q pos. mapGet (positions (fst t)) q = Some pos \<longrightarrow> \<not> (liquidated pos \<and> didShoot pos)"
  shows "\<forall>q pos. mapGet (positions (fst (tickPosition price k t))) q = Some pos
           \<longrightarrow> \<not> (liquidated pos \<and> didShoot pos)"
proof (cases t)
  case (fields r ev d)
  with assms show ?thesis
    by (auto simp: tickPosition_def Let_def mapGet_mapSet split: option.splits if_splits)
qed

lemma fold_tickPosition_exclusive:
  assumes "\<forall>q pos. mapGet (positions (fst t)) q = Some pos \<longrightarrow> \<not> (liquidated pos \<and> didShoot pos)"
  shows "\<forall>q pos. mapGet (positions (fst (fold (tickPosition price) keys t))) q = Some pos
           \<longrightarrow> \<not> (liquidated pos \<and> didShoot pos)"
  using assms
proof (induction keys arbitrary: t)
  case Nil
  then show ?case by simp
next
  case (Cons k keys)
  from Cons.IH [OF tickPosition_exclusive [OF Cons.prems, of price k]] show ?case by simp
qed

lemma handlePriceUpdate_exclusive:
  assumes "\<forall>q pos. positionOf q s = Some pos \<longrightarrow> \<not> (liquidated pos \<and> didShoot pos)"
  shows "\<forall>q pos. positionOf q (handlePriceUpdate price s) = Some pos
           \<longrightarrow> \<not> (liquidated pos \<and> didShoot pos)"
proof (cases "phase s = ROUND")
  case False
  with assms show ?thesis by (simp add: handlePriceUpdate_def)
next
  case True
  show ?thesis
  proof (cases "currentRound s")
    case None
    with assms show ?thesis by (simp add: handlePriceUpdate_def)
  next
    case (Some r)
    let ?t = "fold (tickPosition price) (map fst (positions r)) (r\<lparr>currentPrice := price\<rparr>, emitted s, db s)"
    have "\<forall>q pos. mapGet (positions (fst ?t)) q = Some pos \<longrightarrow> \<not> (liquidated pos \<and> didShoot pos)"
      using assms Some by (intro fold_tickPosition_exclusive) (simp add: positionOf_def)
    with True Some show ?thesis
      by (auto simp: handlePriceUpdate_def positionOf_def split: prod.splits)
  qed
qed

lemma shoot_exclusive:
  assumes "\<forall>q pos. positionOf q s = Some pos \<longrightarrow> \<not> (liquidated pos \<and> didShoot pos)"
  shows "\<forall>q pos. positionOf q (snd (shoot pid rid now s)) = Some pos
           \<longrightarrow> \<not> (liquidated pos \<and> didShoot pos)"
  using assms
  by (auto simp: shoot_def positionOf_def Let_def emit_def mapGet_mapSet
           split: option.splits if_splits)

lemma step_exclusive:
  assumes "\<forall>q pos. positionOf q s = Some pos \<longrightarrow> \<not> (liquidated pos \<and> didShoot pos)"
  shows "\<forall>q pos. positionOf q (step cfg i s) = Some pos \<longrightarrow> \<not> (liquidated pos \<and> didShoot pos)"
proof (cases i)
  case (Tick price)
  with handlePriceUpdate_exclusive [OF assms] show ?thesis by simp
next
  case (Shoot q rid now)
  with shoot_exclusive [OF assms] show ?thesis by simp
next
  case (Join q uname bet now accepted)
  with assms show ?thesis by (simp add: positionOf_def joinLobby_currentRound)
next
  case (IntervalFires n now)
  with assms show ?thesis by (simp add: positionOf_def lobbyUpdateInterval_currentRound)
qed

lemma run_exclusive:
  assumes "\<forall>q pos. positionOf q s = Some pos \<longrightarrow> \<not> (liquidated pos \<and> didShoot pos)"
  shows "\<forall>q pos. positionOf q (run cfg inputs s) = Some pos \<longrightarrow> \<not> (liquidated pos \<and> didShoot pos)"
  using assms unfolding run_def
proof (induction inputs arbitrary: s)
  case Nil
  then show ?case by simp
next
  case (Cons i inputs)
  from Cons.IH [OF step_exclusive [OF Cons.prems, of cfg i]] show ?case by simp
qed

subsection \<open>A new round has open positions only\<close>

lemma createPositions_open:
  assumes "createPositions rid ep lobby assignments acc d = (res, acc', d')"
    and "\<forall>q pos. mapGet acc q = Some pos \<longrightarrow> \<not> liquidated pos \<and> \<not> didShoot pos"
  shows "\<forall>q pos. mapGet acc' q = Some pos \<longrightarrow> \<not> liquidated pos \<and> \<not> didShoot pos"
  using assms
proof (induction assignments arbitrary: acc d)
  case Nil
  then show ?case by simp
next
  case (Cons a assignments)
  obtain pid side where a: "a = (pid, side)" by (cases a)
  show ?case
  proof (cases "mapGet lobby pid")
    case None
    with Cons.prems a show ?thesis by simp
  next
    case (Some lp)
    let ?acc1 = "mapSet pid \<lparr>playerId = pid, positionType = side, betAmount = lobbyBetAmount lp,
                    entryPrice = ep, currentPnl = 0, liquidated = False, didShoot = False,
                    shotAt = None\<rparr> acc"
    have open1: "\<forall>q pos. mapGet ?acc1 q = Some pos \<longrightarrow> \<not> liquidated pos \<and> \<not> didShoot pos"
      using Cons.prems(2) by (auto simp: mapGet_mapSet split: if_splits)
    show ?thesis
    proof (cases "playerUpdate pid (\<lambda>r. r\<lparr>demoBalance := demoBalance r - lobbyBetAmount lp\<rparr>)
                    (positionCreate rid pid side (lobbyBetAmount lp) d)")
      case None
      with Cons.prems(1) a Some open1 show ?thesis by (simp add: Let_def)
    next
      case (Some d2)
      with Cons.prems(1) a \<open>mapGet lobby pid = Some lp\<close>
      have "createPositions rid ep lobby assignments ?acc1 d2 = (res, acc', d')"
        by (simp add: Let_def)
      from Cons.IH [OF this open1] show ?thesis .
    qed
  qed
qed

lemma startRound_open:
  assumes "startRound cfg pair' now dur (Some price) rid shuffle s = (None, s')"
    and "positionOf q s' = Some pos"
  shows "\<not> liquidated pos \<and> \<not> didShoot pos"
proof -
  let ?cp = "createPositions rid price (lobbyPlayers s)
               (assignRandomPositions shuffle (map fst (lobbyPlayers s))) []
               (roundCreate rid pair' price (DEFAULT_LEVERAGE cfg) dur now (db s))"
  obtain res acc' d' where cp: "?cp = (res, acc', d')" by (cases ?cp)
  have op: "\<forall>q pos. mapGet acc' q = Some pos \<longrightarrow> \<not> liquidated pos \<and> \<not> didShoot pos"
    by (rule createPositions_open [OF cp]) (simp add: mapGet_def)
  from assms(1) cp have "res = None" and "currentRound s' \<noteq> None \<and> positions (the (currentRound s')) = acc'"
    by (auto simp: startRound_def Let_def emit_def split: option.splits)
  with assms(2) op show ?thesis by (auto simp: positionOf_def)
qed

subsection \<open>What a tick computes for an open position\<close>

lemma tickPosition_leverage: "leverage (fst (tickPosition price k t)) = leverage (fst t)"
  by (cases t) (auto simp: tickPosition_def Let_def split: option.splits)

lemma tickPosition_other:
  "k \<noteq> pid \<Longrightarrow> mapGet (positions (fst (tickPosition price k t))) pid = mapGet (positions (fst t)) pid"
  by (cases t) (auto simp: tickPosition_def Let_def mapGet_mapSet split: option.splits)

lemma tickPosition_pnl_self:
  assumes "mapGet (positions (fst t)) pid = Some pos"
    and "\<not> liquidated pos0" and "\<not> didShoot pos0"
    and "pos = pos0 \<or> pos = pos0\<lparr>currentPnl := pn\<rparr> \<or> pos = pos0\<lparr>currentPnl := pn, liquidated := True\<rparr>"
    and "pn = calculatePnL (positionType pos0) (entryPrice pos0) price (betAmount pos0) (leverage (fst t))"
  shows "\<exists>pos'. mapGet (positions (fst (tickPosition price pid t))) pid = Some pos'
        \<and> (pos' = pos0\<lparr>currentPnl := pn\<rparr> \<or> pos' = pos0\<lparr>currentPnl := pn, liquidated := True\<rparr>)"
proof (cases t)
  case (fields r ev d)
  with assms show ?thesis
    by (auto simp: tickPosition_def Let_def mapGet_mapSet)
qed

lemma fold_tickPosition_pnl:
  assumes "mapGet (positions (fst t)) pid = Some pos"
    and "\<not> liquidated pos0" and "\<not> didShoot pos0"
    and "pn = calculatePnL (positionType pos0) (entryPrice pos0) price (betAmount pos0) (leverage (fst t))"
    and "(pid \<in> set keys \<and> pos = pos0) \<or> pos = pos0\<lparr>currentPnl := pn\<rparr>
         \<or> pos = pos0\<lparr>currentPnl := pn, liquidated := True\<rparr>"
  shows "\<exists>pos'. mapGet (positions (fst (fold (tickPosition price) keys t))) pid = Some pos'
        \<and> (pos' = pos0\<lparr>currentPnl := pn\<rparr> \<or> pos' = pos0\<lparr>currentPnl := pn, liquidated := True\<rparr>)"
  using assms
proof (induction keys arbitrary: t pos)
  case Nil
  then show ?case by auto
next
  case (Cons k keys)
  let ?t = "tickPosition price k t"
  have lev: "leverage (fst ?t) = leverage (fst t)" by (rule tickPosition_leverage)
  show ?case
  proof (cases "k = pid")
    case True
    from Cons.prems(5) have "pos = pos0 \<or> pos = pos0\<lparr>currentPnl := pn\<rparr>
        \<or> pos = pos0\<lparr>currentPnl := pn, liquidated := True\<rparr>" by auto
    from tickPosition_pnl_self [OF Cons.prems(1,2,3) this Cons.prems(4)]
    obtain pos' where p: "mapGet (positions (fst (tickPosition price pid t))) pid = Some pos'"
      "pos' = pos0\<lparr>currentPnl := pn\<rparr> \<or> pos' = pos0\<lparr>currentPnl := pn, liquidated := True\<rparr>"
      by blast
    from p True have a: "mapGet (positions (fst ?t)) pid = Some pos'" by simp
    from p(2) have b: "(pid \<in> set keys \<and> pos' = pos0) \<or> pos' = pos0\<lparr>currentPnl := pn\<rparr>
         \<or> pos' = pos0\<lparr>currentPnl := pn, liquidated := True\<rparr>" by blast
    from Cons.prems(4) lev
    have c: "pn = calculatePnL (positionType pos0) (entryPrice pos0) price (betAmount pos0) (leverage (fst ?t))"
      by simp
    from Cons.IH [OF a Cons.prems(2,3) c b] show ?thesis by simp
  next
    case False
    then have a: "mapGet (positions (fst ?t)) pid = Some pos"
      using Cons.prems(1) by (simp add: tickPosition_other)
    from Cons.prems(5) False have b: "(pid \<in> set keys \<and> pos = pos0) \<or> pos = pos0\<lparr>currentPnl := pn\<rparr>
         \<or> pos = pos0\<lparr>currentPnl := pn, liquidated := True\<rparr>" by auto
    from Cons.prems(4) lev
    have c: "pn = calculatePnL (positionType pos0) (entryPrice pos0) price (betAmount pos0) (leverage (fst ?t))"
      by simp
    from Cons.IH [OF a Cons.prems(2,3) c b] show ?thesis by simp
  qed
qed

lemma handlePriceUpdate_pnl:
  assumes "phase s = ROUND" and "currentRound s = Some r" and "positionOf pid s = Some pos0"
    and "\<not> liquidated pos0" and "\<not> didShoot pos0"
  shows "\<exists>pos'. positionOf pid (handlePriceUpdate price s) = Some pos'
        \<and> currentPnl pos' = calculatePnL (positionType pos0) (entryPrice pos0) price
                                          (betAmount pos0) (leverage r)
        \<and> didShoot pos' = False
        \<and> positionType pos' = positionType pos0 \<and> betAmount pos' = betAmount pos0
        \<and> entryPrice pos' = entryPrice pos0"
proof -
  let ?pn = "calculatePnL (positionType pos0) (entryPrice pos0) price (betAmount pos0) (leverage r)"
  let ?t0 = "(r\<lparr>currentPrice := price\<rparr>, emitted s, db s)"
  let ?t = "fold (tickPosition price) (map fst (positions r)) ?t0"
  from assms(2,3) have g: "mapGet (positions r) pid = Some pos0" by (simp add: positionOf_def)
  then have k: "pid \<in> set (map fst (positions r))" by (rule mapGet_Some_key)
  have "\<exists>pos'. mapGet (positions (fst ?t)) pid = Some pos'
        \<and> (pos' = pos0\<lparr>currentPnl := ?pn\<rparr> \<or> pos' = pos0\<lparr>currentPnl := ?pn, liquidated := True\<rparr>)"
    by (rule fold_tickPosition_pnl [where pos = pos0]) (use g k assms(4,5) in auto)
  then obtain pos' where p: "mapGet (positions (fst ?t)) pid = Some pos'"
    "pos' = pos0\<lparr>currentPnl := ?pn\<rparr> \<or> pos' = pos0\<lparr>currentPnl := ?pn, liquidated := True\<rparr>" by blast
  from p(1) assms(1,2) have "positionOf pid (handlePriceUpdate price s) = Some pos'"
    by (auto simp: handlePriceUpdate_def positionOf_def split: prod.splits)
  with p(2) assms(5) show ?thesis by auto
qed

subsection \<open>The guards of \<open>shoot\<close>\<close>

lemma shoot_guard:
  assumes "phase s \<noteq> ROUND \<or> (\<forall>r. currentRound s = Some r \<longrightarrow> roundId r \<noteq> rid)
         \<or> positionOf pid s = None
         \<or> (\<exists>pos. positionOf pid s = Some pos \<and> (didShoot pos \<or> liquidated pos))"
  shows "\<exists>e. shoot pid rid now s = (Some e, s)"
  using assms by (auto simp: shoot_def positionOf_def split: option.splits)

lemma shoot_success:
  assumes "shoot pid rid now s = (None, s')"
  shows "\<exists>r pos. phase s = ROUND \<and> currentRound s = Some r \<and> roundId r = rid
          \<and> positionOf pid s = Some pos \<and> \<not> didShoot pos \<and> \<not> liquidated pos
          \<and> positionOf pid s' = Some (pos\<lparr>didShoot := True, shotAt := Some now\<rparr>)"
  using assms
  by (auto simp: shoot_def positionOf_def Let_def emit_def mapGet_mapSet
           split: option.splits if_splits)

lemma shoot_other:
  "q \<noteq> p \<Longrightarrow> positionOf p (snd (shoot q rid now s)) = positionOf p s"
  by (auto simp: shoot_def positionOf_def Let_def emit_def mapGet_mapSet split: option.splits)

lemma shoot_pnl:
  assumes "positionOf p s = Some pos"
  shows "\<exists>pos'. positionOf p (snd (shoot q rid now s)) = Some pos'
              \<and> currentPnl pos' = currentPnl pos"
proof (cases "q = p")
  case False
  with assms show ?thesis by (simp add: shoot_other)
next
  case True
  with assms show ?thesis
    by (auto simp: shoot_def positionOf_def Let_def emit_def mapGet_mapSet split: option.splits)
qed

lemma shoot_phase: "phase (snd (shoot q rid now s)) = phase s"
  by (auto simp: shoot_def Let_def emit_def split: option.splits)

lemma joinLobby_phase: "phase (snd (joinLobby cfg pid uname bet now accepted s)) = phase s"
  by (auto simp: joinLobby_def Let_def emit_def split: option.splits)

lemma lobbyUpdateInterval_phase: "phase (lobbyUpdateInterval n now s) = phase s"
  by (auto simp: lobbyUpdateInterval_def Let_def emit_def)

lemma handlePriceUpdate_phase: "phase (handlePriceUpdate price s) = phase s"
  by (auto simp: handlePriceUpdate_def split: option.splits prod.splits)

lemma step_phase: "phase (step cfg i s) = phase s"
  by (cases i)
     (simp_all add: handlePriceUpdate_phase shoot_phase joinLobby_phase lobbyUpdateInterval_phase)

lemma run_phase: "phase (run cfg inputs s) = phase s"
  unfolding run_def by (induction inputs arbitrary: s) (simp_all add: step_phase)

lemma step_nontick_pnl:
  assumes "\<not> isTick i" and "positionOf p s = Some pos"
  shows "\<exists>pos'. positionOf p (step cfg i s) = Some pos' \<and> currentPnl pos' = currentPnl pos"
proof (cases i)
  case (Tick price)
  with assms show ?thesis by simp
next
  case (Shoot q rid now)
  with shoot_pnl [OF assms(2), of q rid now] show ?thesis by simp
next
  case (Join q uname bet now accepted)
  with assms show ?thesis by (simp add: positionOf_def joinLobby_currentRound)
next
  case (IntervalFires n now)
  with assms show ?thesis by (simp add: positionOf_def lobbyUpdateInterval_currentRound)
qed

lemma run_nontick_pnl:
  assumes "\<forall>i\<in>set cmds. \<not> isTick i" and "positionOf p s = Some pos"
  shows "\<exists>pos'. positionOf p (run cfg cmds s) = Some pos' \<and> currentPnl pos' = currentPnl pos"
  using assms unfolding run_def
proof (induction cmds arbitrary: s pos)
  case Nil
  then show ?case by simp
next
  case (Cons i cmds)
  from Cons.prems have nt: "\<not> isTick i" and rest: "\<forall>i\<in>set cmds. \<not> isTick i" by simp_all
  from step_nontick_pnl [OF nt Cons.prems(2), of cfg] obtain pos1 where
    p1: "positionOf p (step cfg i s) = Some pos1" "currentPnl pos1 = currentPnl pos" by blast
  from Cons.IH [OF rest p1(1)] p1(2) show ?case by simp
qed

lemma startRound_exclusive:
  assumes "startRound cfg pair' now dur priceResult rid shuffle s = (None, s')"
    and "positionOf q s' = Some pos"
  shows "\<not> (liquidated pos \<and> didShoot pos)"
proof (cases priceResult)
  case None
  with assms show ?thesis by (auto simp: startRound_def startLobby_def emit_def Let_def positionOf_def)
next
  case (Some price)
  with startRound_open assms show ?thesis by blast
qed

subsection \<open>Rejections of \<open>joinLobby\<close>\<close>

lemma joinLobby_rejected_roster:
  "joinLobby cfg pid uname bet now accepted s = (Some e, s') \<Longrightarrow> e \<noteq> WriteRejected \<Longrightarrow>
   lobbyPlayers s' = lobbyPlayers s"
  by (auto simp: joinLobby_def Let_def emit_def split: option.splits if_splits)

lemma joinLobby_guard:
  assumes "phase s \<noteq> LOBBY \<or> bet < MIN_BET_AMOUNT cfg \<or> pid \<in> fst ` set (lobbyPlayers s)
    \<or> (\<exists>r. find (\<lambda>r. rowUsername r = uname) (playerTable (db s)) = Some r \<and> demoBalance r < bet)
    \<or> (find (\<lambda>r. rowUsername r = uname) (playerTable (db s)) = None \<and> DEFAULT_DEMO_BALANCE cfg < bet)"
  shows "fst (joinLobby cfg pid uname bet now accepted s) \<noteq> None
       \<and> lobbyPlayers (snd (joinLobby cfg pid uname bet now accepted s)) = lobbyPlayers s"
  using assms
  by (auto simp: joinLobby_def Let_def mapHas_iff playerUpsert_def split: option.splits if_splits)

lemma joinLobby_success:
  assumes "joinLobby cfg pid uname bet now accepted s = (None, s')"
  shows "phase s = LOBBY \<and> MIN_BET_AMOUNT cfg \<le> bet \<and> pid \<notin> fst ` set (lobbyPlayers s)
       \<and> (\<exists>bal. bet \<le> bal
            \<and> lobbyPlayers s' = lobbyPlayers s @
                 [(pid, \<lparr>lobbyPlayerId = pid, username = uname, lobbyBetAmount = bet,
                         balance = bal, joinedAt = now\<rparr>)])"
  using assms
  by (auto simp: joinLobby_def Let_def emit_def mapHas_iff mapSet_absent lobbyEntryCreate_def
           split: option.splits if_splits)

lemma find_append_None:
  "find P xs = None \<Longrightarrow> find P (xs @ ys) = find P ys"
  by (induction xs) (auto split: if_splits)

lemma find_map_rowId:
  "find (\<lambda>r. rowUsername r = u) (map (\<lambda>q. if rowUsername q = u then q\<lparr>rowId := p\<rparr> else q) tbl)
     = map_option (\<lambda>q. q\<lparr>rowId := p\<rparr>) (find (\<lambda>r. rowUsername r = u) tbl)"
  by (induction tbl) auto

lemma playerUpsert_row:
  assumes "playerUpsert u p b d = Some (r, d')"
  shows "find (\<lambda>r. rowUsername r = u) (playerTable d') = Some r \<and> rowId r = p"
  using assms
  by (auto simp: playerUpsert_def Let_def find_append_None find_map_rowId
           split: option.splits if_splits)

lemma playerUpsert_table:
  assumes "playerUpsert u p b d = Some (r, d')"
  shows "(find (\<lambda>r. rowUsername r = u) (playerTable d) = None
           \<longrightarrow> playerTable d' = playerTable d @
                 [\<lparr>rowId = p, rowUsername = u, demoBalance = b, totalPnl = 0, gamesPlayed = 0,
                   gamesWon = 0, gamesLost = 0\<rparr>])
       \<and> (find (\<lambda>r. rowUsername r = u) (playerTable d) \<noteq> None
           \<longrightarrow> playerTable d' =
                 map (\<lambda>q. if rowUsername q = u then q\<lparr>rowId := p\<rparr> else q) (playerTable d))"
  using assms
  by (auto simp: playerUpsert_def Let_def split: option.splits if_splits)

lemma joinLobby_insufficient:
  assumes "joinLobby cfg pid uname bet now accepted s = (Some InsufficientBalance, s')"
  shows "\<exists>r. playerUpsert uname pid (DEFAULT_DEMO_BALANCE cfg) (db s) = Some (r, db s')
            \<and> demoBalance r < bet \<and> lobbyPlayers s' = lobbyPlayers s"
  using assms
  by (auto simp: joinLobby_def Let_def emit_def split: option.splits if_splits)

lemma joinLobby_other_rejection:
  assumes "joinLobby cfg pid uname bet now accepted s = (Some e, s')"
    and "e \<noteq> InsufficientBalance" and "e \<noteq> WriteRejected"
  shows "s' = s"
  using assms
  by (auto simp: joinLobby_def Let_def emit_def split: option.splits if_splits)

subsection \<open>The lobby interval\<close>

lemma lobbyUpdateInterval_only_in_lobby:
  "emitted (lobbyUpdateInterval n now s) \<noteq> emitted s \<Longrightarrow> phase s = LOBBY"
  by (auto simp: lobbyUpdateInterval_def emit_def Let_def split: if_splits)

subsection \<open>The states of the game of two players\<close>

lemma liquidationPrice_LONG_100_500:
  "calculateLiquidationPrice LONG 100 500 = 7022800668930867 / 70368744177664"
  by (simp add: calculateLiquidationPrice_def fl_def roundTiesToEven_def pow2_def
                eval_nat_numeral Let_def)

lemma liquidationPrice_SHORT_100_500:
  "calculateLiquidationPrice SHORT 100 500 = 7050948166601933 / 70368744177664"
  by (simp add: calculateLiquidationPrice_def fl_def roundTiesToEven_def pow2_def
                eval_nat_numeral Let_def)

lemmas orchestrator_defs =
  initialState_def defaultConfig_def startLobby_def emit_def joinLobby_def mapHas_def mapGet_def
  playerUpsert_def playerFindUnique_def playerUpdate_def lobbyEntryCreate_def
  lobbyEntryDeleteMany_def endLobby_def startRound_def roundCreate_def
  assignRandomPositions_def positionCreate_def positionUpdateMany_def handlePriceUpdate_def
  tickPosition_def calculatePnL_def calculatePnLPercentage_def isLiquidated_def
  liquidationPrice_LONG_100_500 liquidationPrice_SHORT_100_500 calculatePayout_def shoot_def
  lobbyUpdateInterval_def positionOf_def run_def Let_def

lemma demoLobby_eval:
  "demoLobby =
     \<lparr>phase = LOBBY, currentRound = None, lobbyStartTime = Some 0, lobbyEndTime = Some 20000,
      lobbyPlayers =
        [(''p1'', \<lparr>lobbyPlayerId = ''p1'', username = ''alice'', lobbyBetAmount = 10,
                   balance = 100, joinedAt = 1000\<rparr>),
         (''p2'', \<lparr>lobbyPlayerId = ''p2'', username = ''bob'', lobbyBetAmount = 20,
                   balance = 100, joinedAt = 2000\<rparr>)],
      lobbyTimer = Some 1, roundTimer = None, priceUnsubscribe = None, lobbySeq = 1,
      lobbyUpdateIntervals = [1],
      db = \<lparr>playerTable =
              [\<lparr>rowId = ''p1'', rowUsername = ''alice'', demoBalance = 100, totalPnl = 0,
                gamesPlayed = 0, gamesWon = 0, gamesLost = 0\<rparr>,
               \<lparr>rowId = ''p2'', rowUsername = ''bob'', demoBalance = 100, totalPnl = 0,
                gamesPlayed = 0, gamesWon = 0, gamesLost = 0\<rparr>],
            roundTable = [], positionTable = [],
            lobbyEntryTable = [(''p1'', 10), (''p2'', 20)]\<rparr>,
      emitted = [LobbyStart 20000 20, LobbyPlayerJoined ''p1'' ''alice'' 10 100,
                 LobbyPlayerJoined ''p2'' ''bob'' 20 100]\<rparr>"
  by (simp add: demoLobby_def orchestrator_defs)

lemma demoStart_ok:
  "startRound defaultConfig ''BTC/USD'' 20000 30 (Some 100) ''r1'' (\<lambda>xs. xs) demoLobby
     = (None, demoStart)"
  unfolding demoStart_def demoLobby_eval by (simp add: orchestrator_defs)

lemma demoStart_round:
  "currentRound demoStart =
     Some \<lparr>roundId = ''r1'', pair = ''BTC/USD'', roundEntryPrice = 100, currentPrice = 100,
           leverage = 500, startTime = 20000, endTime = None, duration = 30,
           totalWagered = 30,
           positions =
             [(''p1'', \<lparr>playerId = ''p1'', positionType = LONG, betAmount = 10,
                        entryPrice = 100, currentPnl = 0, liquidated = False,
                        didShoot = False, shotAt = None\<rparr>),
              (''p2'', \<lparr>playerId = ''p2'', positionType = SHORT, betAmount = 20,
                        entryPrice = 100, currentPnl = 0, liquidated = False,
                        didShoot = False, shotAt = None\<rparr>)]\<rparr>"
  unfolding demoStart_def demoLobby_eval by (simp add: orchestrator_defs)

lemma demoRound_eval:
  "demoRound =
     \<lparr>phase = ROUND,
      currentRound =
        Some \<lparr>roundId = ''r1'', pair = ''BTC/USD'', roundEntryPrice = 100,
              currentPrice = 1001 / 10, leverage = 500, startTime = 20000, endTime = None,
              duration = 30, totalWagered = 30,
              positions =
                [(''p1'', \<lparr>playerId = ''p1'', positionType = LONG, betAmount = 10,
                           entryPrice = 100, currentPnl = 5, liquidated = False,
                           didShoot = False, shotAt = None\<rparr>),
                 (''p2'', \<lparr>playerId = ''p2'', positionType = SHORT, betAmount = 20,
                           entryPrice = 100, currentPnl = - 10, liquidated = False,
                           didShoot = False, shotAt = None\<rparr>)]\<rparr>,
      lobbyStartTime = Some 0, lobbyEndTime = Some 20000, lobbyPlayers = [],
      lobbyTimer = Some 1, roundTimer = Some ''r1'', priceUnsubscribe = Some ''BTC/USD'',
      lobbySeq = 1, lobbyUpdateIntervals = [1],
      db = \<lparr>playerTable =
              [\<lparr>rowId = ''p1'', rowUsername = ''alice'', demoBalance = 90, totalPnl = 0,
                gamesPlayed = 0, gamesWon = 0, gamesLost = 0\<rparr>,
               \<lparr>rowId = ''p2'', rowUsername = ''bob'', demoBalance = 80, totalPnl = 0,
                gamesPlayed = 0, gamesWon = 0, gamesLost = 0\<rparr>],
            roundTable =
              [\<lparr>rrId = ''r1'', rrPair = ''BTC/USD'', rrEntryPrice = 100, rrLeverage = 500,
                durationSeconds = 30, startedAt = 20000, status = ''active'',
                rrExitPrice = None, endedAt = None\<rparr>],
            positionTable =
              [\<lparr>posRoundId = ''r1'', posPlayerId = ''p1'', posPositionType = LONG,
                posEntryAmount = 10, posLiquidated = False, posDidShoot = False,
                posShotAt = None, posExitPrice = None, posPnl = None\<rparr>,
               \<lparr>posRoundId = ''r1'', posPlayerId = ''p2'', posPositionType = SHORT,
                posEntryAmount = 20, posLiquidated = False, posDidShoot = False,
                posShotAt = None, posExitPrice = None, posPnl = None\<rparr>],
            lobbyEntryTable = []\<rparr>,
      emitted =
        [LobbyStart 20000 20, LobbyPlayerJoined ''p1'' ''alice'' 10 100,
         LobbyPlayerJoined ''p2'' ''bob'' 20 100,
         RoundStart ''r1'' ''BTC/USD'' 100 500 30 30 [(''p1'', LONG, 10), (''p2'', SHORT, 20)],
         PriceUpdate ''r1'' ''BTC/USD'' (1001 / 10)
           [(''p1'', 5, 50, False), (''p2'', - 10, - 50, False)]]\<rparr>"
  unfolding demoRound_def demoStart_def demoLobby_eval by (simp add: orchestrator_defs)

lemma demoShot_ok: "shoot ''p1'' ''r1'' 25000 demoRound = (None, demoShot)"
  unfolding demoShot_def demoRound_eval by (simp add: orchestrator_defs)

section \<open>Properties of the round orchestrator\<close>

text \<open>
  C1. A financial mutation is to be applied once: a player who shot was credited at shoot
  time, and \<^verbatim>\<open>endRound\<close> is to credit neither the balance nor \<open>totalPnl\<close> for that
  position again. The loop of \<^verbatim>\<open>endRound\<close> runs over every position and
  increments the balance by the payout and \<open>totalPnl\<close> by the P&L also for a position with
  \<open>didShoot\<close>. In the game of two players \<open>p1\<close> holds 90 after the bet of 10 was deducted,
  shoots at a P&L of 5 and holds 105 with \<open>totalPnl\<close> 5; after \<^verbatim>\<open>endRound\<close> the same
  player holds 120 with \<open>totalPnl\<close> 10.
\<close>

theorem endRound_credits_shot_player_again:
  "getPlayerBalance ''p1'' demoRound = Some (90, 0, 0)
   \<and> shoot ''p1'' ''r1'' 25000 demoRound = (None, demoShot)
   \<and> getPlayerBalance ''p1'' demoShot = Some (105, 5, 0)
   \<and> fst (endRound defaultConfig ''time_expired'' 50000 demoShot) = None
   \<and> getPlayerBalance ''p1'' (snd (endRound defaultConfig ''time_expired'' 50000 demoShot))
       = Some (120, 10, 1)"
  unfolding demoShot_def demoRound_eval
  by (simp add: orchestrator_defs endRound_def roundUpdate_def getPlayerBalance_def)

text \<open>
  C2. Every \<^verbatim>\<open>lobby:update\<close> is to be emitted by the interval of the lobby that is
  active. The callback of an interval clears the interval only when it runs while
  the phase is not LOBBY. When the timer of an empty lobby expires, \<^verbatim>\<open>endLobby\<close> starts
  the next lobby at once: the phase never leaves LOBBY, the interval of the first lobby
  stays alive next to that of the second, and its next run emits \<^verbatim>\<open>lobby:update\<close> while
  the second lobby is the active one.
\<close>

theorem lobby_interval_survives_restart:
  "phase demoRestart = LOBBY \<and> lobbySeq demoRestart = 2
   \<and> lobbyUpdateIntervals demoRestart = [1, 2]
   \<and> emitted (lobbyUpdateInterval 1 21000 demoRestart)
       = emitted demoRestart @ [LobbyUpdate 19 0 0 []]"
  unfolding demoRestart_def by (simp add: orchestrator_defs)

text \<open>
  C3. \<^verbatim>\<open>shoot\<close> fails and leaves the whole state as it was when the phase is not ROUND,
  when the round id is not that of the active round, when the player has no position, and
  when the position is already shot or liquidated. When it succeeds, the position was open
  and is now the same position with \<open>didShoot\<close> set (its \<open>currentPnl\<close> is untouched);
  after any further ticks and commands of the round the position is still that one and a
  further \<^verbatim>\<open>shoot\<close> of the player fails, so a player shoots at most once per round. A
  \<^verbatim>\<open>shoot\<close> of one player leaves the position of every other player as it was. Whatever
  commands and interval runs lie between the most recent price tick and a successful
  shoot, the frozen \<open>currentPnl\<close> is the P&L computed from the price of that tick.
\<close>

theorem shoot_rejects_and_succeeds_once:
  "(phase s \<noteq> ROUND \<or> (\<forall>r. currentRound s = Some r \<longrightarrow> roundId r \<noteq> rid)
      \<or> positionOf pid s = None
      \<or> (\<exists>pos. positionOf pid s = Some pos \<and> (didShoot pos \<or> liquidated pos))
    \<longrightarrow> (\<exists>e. shoot pid rid now s = (Some e, s)))
   \<and> (shoot pid' rid' now' t = (None, t')
    \<longrightarrow> (\<exists>pos. positionOf pid' t = Some pos \<and> \<not> didShoot pos \<and> \<not> liquidated pos
              \<and> positionOf pid' t' = Some (pos\<lparr>didShoot := True, shotAt := Some now'\<rparr>))
        \<and> positionOf pid' (run cfg inputs t') = positionOf pid' t'
        \<and> (\<exists>e. shoot pid' rid2 now2 (run cfg inputs t') = (Some e, run cfg inputs t')))
   \<and> (q \<noteq> p' \<longrightarrow> positionOf p' (snd (shoot q rid3 now3 u)) = positionOf p' u)
   \<and> (currentRound s0 = Some r0 \<and> positionOf p s0 = Some pos0
        \<and> (\<forall>i\<in>set cmds. \<not> isTick i)
        \<and> shoot p rid0 now0 (run cfg cmds (handlePriceUpdate price s0)) = (None, s1)
    \<longrightarrow> (\<exists>pos1. positionOf p s1 = Some pos1 \<and> didShoot pos1
              \<and> currentPnl pos1 = calculatePnL (positionType pos0) (entryPrice pos0) price
                                                (betAmount pos0) (leverage r0)))"
proof (intro conjI impI)
  assume "phase s \<noteq> ROUND \<or> (\<forall>r. currentRound s = Some r \<longrightarrow> roundId r \<noteq> rid)
      \<or> positionOf pid s = None
      \<or> (\<exists>pos. positionOf pid s = Some pos \<and> (didShoot pos \<or> liquidated pos))"
  then show "\<exists>e. shoot pid rid now s = (Some e, s)" by (rule shoot_guard)
next
  assume a: "shoot pid' rid' now' t = (None, t')"
  from shoot_success [OF a] obtain pos where
    pos: "positionOf pid' t = Some pos" "\<not> didShoot pos" "\<not> liquidated pos"
         "positionOf pid' t' = Some (pos\<lparr>didShoot := True, shotAt := Some now'\<rparr>)" by blast
  then show "\<exists>pos. positionOf pid' t = Some pos \<and> \<not> didShoot pos \<and> \<not> liquidated pos
              \<and> positionOf pid' t' = Some (pos\<lparr>didShoot := True, shotAt := Some now'\<rparr>)"
    by blast
  have closed: "liquidated (pos\<lparr>didShoot := True, shotAt := Some now'\<rparr>)
              \<or> didShoot (pos\<lparr>didShoot := True, shotAt := Some now'\<rparr>)" by simp
  from run_closed [OF pos(4) closed] pos(4)
  show "positionOf pid' (run cfg inputs t') = positionOf pid' t'" by simp
  from shoot_closed_fails [OF run_closed [OF pos(4) closed] closed]
  show "\<exists>e. shoot pid' rid2 now2 (run cfg inputs t') = (Some e, run cfg inputs t')" .
next
  assume "q \<noteq> p'"
  then show "positionOf p' (snd (shoot q rid3 now3 u)) = positionOf p' u" by (rule shoot_other)
next
  let ?tick = "handlePriceUpdate price s0"
  let ?u = "run cfg cmds ?tick"
  assume b: "currentRound s0 = Some r0 \<and> positionOf p s0 = Some pos0
        \<and> (\<forall>i\<in>set cmds. \<not> isTick i)
        \<and> shoot p rid0 now0 (run cfg cmds (handlePriceUpdate price s0)) = (None, s1)"
  then have r0: "currentRound s0 = Some r0" and p0: "positionOf p s0 = Some pos0"
    and nt: "\<forall>i\<in>set cmds. \<not> isTick i"
    and sh: "shoot p rid0 now0 ?u = (None, s1)" by simp_all
  from shoot_success [OF sh] obtain pos where
    pos: "phase ?u = ROUND" "positionOf p ?u = Some pos" "\<not> didShoot pos" "\<not> liquidated pos"
         "positionOf p s1 = Some (pos\<lparr>didShoot := True, shotAt := Some now0\<rparr>)" by blast
  from pos(1) have ph: "phase s0 = ROUND" by (simp add: run_phase handlePriceUpdate_phase)
  have "\<not> (liquidated pos0 \<or> didShoot pos0)"
  proof
    assume c: "liquidated pos0 \<or> didShoot pos0"
    from run_closed [OF handlePriceUpdate_closed [OF p0 c, of price] c, of cfg cmds] pos(2)
    have "pos = pos0" by simp
    with pos(3,4) c show False by simp
  qed
  then have "\<not> liquidated pos0" "\<not> didShoot pos0" by simp_all
  from handlePriceUpdate_pnl [OF ph r0 p0 this, of price] obtain post where
    post: "positionOf p ?tick = Some post"
          "currentPnl post = calculatePnL (positionType pos0) (entryPrice pos0) price
                                          (betAmount pos0) (leverage r0)" by blast
  from run_nontick_pnl [OF nt post(1), of cfg] pos(2) post(2)
  have "currentPnl pos = calculatePnL (positionType pos0) (entryPrice pos0) price
                                      (betAmount pos0) (leverage r0)" by auto
  with pos(5) show "\<exists>pos1. positionOf p s1 = Some pos1 \<and> didShoot pos1
              \<and> currentPnl pos1 = calculatePnL (positionType pos0) (entryPrice pos0) price
                                                (betAmount pos0) (leverage r0)" by simp
qed

theorem shoot_rejects_and_succeeds_once_witness:
  "(\<exists>e. shoot ''p1'' ''r1'' 26000 demoShot = (Some e, demoShot))
   \<and> shoot ''p1'' ''r1'' 25000 demoRound = (None, demoShot)
   \<and> (\<exists>e. shoot ''p1'' ''r1'' 27000
             (run defaultConfig [Tick 102, Shoot ''p2'' ''r1'' 25500] demoShot)
           = (Some e, run defaultConfig [Tick 102, Shoot ''p2'' ''r1'' 25500] demoShot))
   \<and> (\<exists>pos1. positionOf ''p1'' demoShot = Some pos1 \<and> didShoot pos1 \<and> currentPnl pos1 = 5)
   \<and> positionOf ''p2'' demoShot = positionOf ''p2'' demoRound
   \<and> fst (shoot ''p1'' ''r1'' 25000
            (run defaultConfig
               [Shoot ''p2'' ''r1'' 24000, Join ''p3'' ''carol'' 30 24500 True,
                IntervalFires 1 24600]
               demoRound)) = None
   \<and> (\<exists>pos1. positionOf ''p1''
                (snd (shoot ''p1'' ''r1'' 25000
                        (run defaultConfig
                           [Shoot ''p2'' ''r1'' 24000, Join ''p3'' ''carol'' 30 24500 True,
                            IntervalFires 1 24600]
                           demoRound))) = Some pos1
            \<and> didShoot pos1 \<and> currentPnl pos1 = 5)"
proof -
  let ?cmds = "[Shoot ''p2'' ''r1'' 24000, Join ''p3'' ''carol'' 30 24500 True,
                IntervalFires 1 24600]"
  let ?late = "shoot ''p1'' ''r1'' 25000 (run defaultConfig ?cmds demoRound)"
  have h1: "\<exists>pos. positionOf ''p1'' demoShot = Some pos \<and> (didShoot pos \<or> liquidated pos)"
    unfolding demoShot_def demoRound_eval by (simp add: orchestrator_defs)
  have h3: "positionOf ''p1'' demoStart
              = Some \<lparr>playerId = ''p1'', positionType = LONG, betAmount = 10, entryPrice = 100,
                      currentPnl = 0, liquidated = False, didShoot = False, shotAt = None\<rparr>"
    by (simp add: positionOf_def demoStart_round mapGet_def)
  have h4: "fst ?late = None"
    unfolding demoRound_eval by (simp add: orchestrator_defs)
  then have h5: "shoot ''p1'' ''r1'' 25000
                   (run defaultConfig ?cmds (handlePriceUpdate (1001 / 10) demoStart))
                 = (None, snd ?late)"
    by (simp add: prod_eq_iff demoRound_def)
  have h6: "\<forall>i\<in>set ?cmds. \<not> isTick i" by simp
  have h7: "demoShot = snd (shoot ''p1'' ''r1'' 25000 demoRound)" by (simp add: demoShot_def)
  have h8: "shoot ''p1'' ''r1'' 25000
              (run defaultConfig [] (handlePriceUpdate (1001 / 10) demoStart))
            = (None, demoShot)"
    using demoShot_ok by (simp add: run_def demoRound_def)
  have c: "calculatePnL LONG 100 (1001 / 10) 10 500 = 5" by (simp add: calculatePnL_def)
  from shoot_rejects_and_succeeds_once
         [where s = demoShot and pid = "''p1''" and rid = "''r1''" and now = 26000
            and t = demoRound and pid' = "''p1''" and rid' = "''r1''" and now' = 25000
            and t' = demoShot and cfg = defaultConfig
            and inputs = "[Tick 102, Shoot ''p2'' ''r1'' 25500]"
            and ?rid2.0 = "''r1''" and ?now2.0 = 27000
            and q = "''p1''" and p' = "''p2''" and ?rid3.0 = "''r1''" and ?now3.0 = 25000
            and u = demoRound
            and ?s0.0 = demoStart and ?r0.0 = "the (currentRound demoStart)" and p = "''p1''"
            and ?pos0.0 = "\<lparr>playerId = ''p1'', positionType = LONG, betAmount = 10,
                             entryPrice = 100, currentPnl = 0, liquidated = False,
                             didShoot = False, shotAt = None\<rparr>"
            and cmds = ?cmds
            and ?rid0.0 = "''r1''" and ?now0.0 = 25000 and price = "1001 / 10"
            and ?s1.0 = "snd ?late"]
       shoot_rejects_and_succeeds_once
         [where ?s0.0 = demoStart and ?r0.0 = "the (currentRound demoStart)" and p = "''p1''"
            and ?pos0.0 = "\<lparr>playerId = ''p1'', positionType = LONG, betAmount = 10,
                             entryPrice = 100, currentPnl = 0, liquidated = False,
                             didShoot = False, shotAt = None\<rparr>"
            and cfg = defaultConfig and cmds = "[]"
            and ?rid0.0 = "''r1''" and ?now0.0 = 25000 and price = "1001 / 10"
            and ?s1.0 = demoShot]
       h1 h3 h4 h5 h6 h8 demoShot_ok c
  show ?thesis by (simp add: demoStart_round flip: h7)
qed

text \<open>
  C7. \<^verbatim>\<open>joinLobby\<close> fails and leaves the roster as it was when the phase is not LOBBY,
  when the bet is below the configured minimum, when the player id is in the roster, and
  when the balance of the player record that the upsert returns is below the bet: the
  balance of the row stored under the username or, for a username not yet stored, the
  default balance a new player receives. When it succeeds, the player id was not in the
  roster and the new roster is the old one followed by one entry for the player id.
\<close>

theorem joinLobby_rejections:
  "(phase s \<noteq> LOBBY \<or> bet < MIN_BET_AMOUNT cfg \<or> pid \<in> fst ` set (lobbyPlayers s)
      \<or> (\<exists>r. find (\<lambda>r. rowUsername r = uname) (playerTable (db s)) = Some r \<and> demoBalance r < bet)
      \<or> (find (\<lambda>r. rowUsername r = uname) (playerTable (db s)) = None
           \<and> DEFAULT_DEMO_BALANCE cfg < bet)
    \<longrightarrow> fst (joinLobby cfg pid uname bet now accepted s) \<noteq> None
        \<and> lobbyPlayers (snd (joinLobby cfg pid uname bet now accepted s)) = lobbyPlayers s)
   \<and> (joinLobby cfg pid' uname' bet' now' accepted' t = (None, t')
    \<longrightarrow> phase t = LOBBY \<and> MIN_BET_AMOUNT cfg \<le> bet' \<and> pid' \<notin> fst ` set (lobbyPlayers t)
        \<and> (\<exists>bal. bet' \<le> bal
              \<and> lobbyPlayers t' = lobbyPlayers t @
                   [(pid', \<lparr>lobbyPlayerId = pid', username = uname', lobbyBetAmount = bet',
                            balance = bal, joinedAt = now'\<rparr>)])
        \<and> length (filter (\<lambda>(k, v). k = pid') (lobbyPlayers t')) = 1)"
proof (intro conjI impI)
  assume g: "phase s \<noteq> LOBBY \<or> bet < MIN_BET_AMOUNT cfg \<or> pid \<in> fst ` set (lobbyPlayers s)
      \<or> (\<exists>r. find (\<lambda>r. rowUsername r = uname) (playerTable (db s)) = Some r \<and> demoBalance r < bet)
      \<or> (find (\<lambda>r. rowUsername r = uname) (playerTable (db s)) = None
           \<and> DEFAULT_DEMO_BALANCE cfg < bet)"
  from joinLobby_guard [OF g, of now accepted]
  show "fst (joinLobby cfg pid uname bet now accepted s) \<noteq> None"
    and "lobbyPlayers (snd (joinLobby cfg pid uname bet now accepted s)) = lobbyPlayers s"
    by simp_all
next
  assume a: "joinLobby cfg pid' uname' bet' now' accepted' t = (None, t')"
  note ok = joinLobby_success [OF a]
  from ok show "phase t = LOBBY" by simp
  from ok show "MIN_BET_AMOUNT cfg \<le> bet'" by simp
  from ok show fresh: "pid' \<notin> fst ` set (lobbyPlayers t)" by simp
  from ok show "\<exists>bal. bet' \<le> bal
              \<and> lobbyPlayers t' = lobbyPlayers t @
                   [(pid', \<lparr>lobbyPlayerId = pid', username = uname', lobbyBetAmount = bet',
                            balance = bal, joinedAt = now'\<rparr>)]" by simp
  from fresh have "filter (\<lambda>(k, v). k = pid') (lobbyPlayers t) = []"
    by (force simp: filter_empty_conv)
  with ok show "length (filter (\<lambda>(k, v). k = pid') (lobbyPlayers t')) = 1" by auto
qed

theorem joinLobby_rejections_witness:
  "fst (joinLobby defaultConfig ''p3'' ''carol'' 1000 3000 True demoLobby) \<noteq> None
   \<and> lobbyPlayers (snd (joinLobby defaultConfig ''p3'' ''carol'' 1000 3000 True demoLobby))
       = lobbyPlayers demoLobby
   \<and> fst (joinLobby defaultConfig ''p3'' ''carol'' 30 3000 True demoLobby) = None
   \<and> length (filter (\<lambda>(k, v). k = ''p3'')
        (lobbyPlayers (snd (joinLobby defaultConfig ''p3'' ''carol'' 30 3000 True demoLobby)))) = 1"
proof -
  have h1: "find (\<lambda>r. rowUsername r = ''carol'') (playerTable (db demoLobby)) = None
            \<and> DEFAULT_DEMO_BALANCE defaultConfig < 1000"
    unfolding demoLobby_eval by (simp add: defaultConfig_def)
  have h2: "fst (joinLobby defaultConfig ''p3'' ''carol'' 30 3000 True demoLobby) = None"
    unfolding demoLobby_eval by (simp add: orchestrator_defs)
  then have h3: "joinLobby defaultConfig ''p3'' ''carol'' 30 3000 True demoLobby
                  = (None, snd (joinLobby defaultConfig ''p3'' ''carol'' 30 3000 True demoLobby))"
    by (simp add: prod_eq_iff)
  from joinLobby_rejections
         [where s = demoLobby and cfg = defaultConfig and pid = "''p3''" and uname = "''carol''"
            and bet = 1000 and now = 3000 and accepted = True and t = demoLobby
            and pid' = "''p3''" and accepted' = True
            and uname' = "''carol''" and bet' = 30 and now' = 3000
            and t' = "snd (joinLobby defaultConfig ''p3'' ''carol'' 30 3000 True demoLobby)"]
       h1 h2 h3
  show ?thesis by simp
qed

text \<open>
  C8. Once a position is liquidated or shot, no sequence of ticks and commands of the round
  changes it (so its \<open>currentPnl\<close> is never recomputed) and every later \<^verbatim>\<open>shoot\<close> on it
  fails. After any sequence of ticks and commands that follows the start of a round, no
  position of the round is both liquidated and shot.
\<close>

theorem closed_position_is_terminal:
  "(positionOf pid s = Some pos \<and> (liquidated pos \<or> didShoot pos)
    \<longrightarrow> positionOf pid (run cfg inputs s) = Some pos
        \<and> (\<exists>e. shoot pid rid now (run cfg inputs s) = (Some e, run cfg inputs s)))
   \<and> (startRound cfg pair' now0 dur priceResult rid0 shuffle s0 = (None, t)
        \<and> positionOf q (run cfg inputs' t) = Some pos'
    \<longrightarrow> \<not> (liquidated pos' \<and> didShoot pos'))"
proof (intro conjI impI)
  assume a: "positionOf pid s = Some pos \<and> (liquidated pos \<or> didShoot pos)"
  then have p: "positionOf pid s = Some pos" and c: "liquidated pos \<or> didShoot pos" by simp_all
  from run_closed [OF p c] show r: "positionOf pid (run cfg inputs s) = Some pos" .
  from shoot_closed_fails [OF r c]
  show "\<exists>e. shoot pid rid now (run cfg inputs s) = (Some e, run cfg inputs s)" .
next
  assume b: "startRound cfg pair' now0 dur priceResult rid0 shuffle s0 = (None, t)
        \<and> positionOf q (run cfg inputs' t) = Some pos'"
  then have st: "startRound cfg pair' now0 dur priceResult rid0 shuffle s0 = (None, t)"
    and p: "positionOf q (run cfg inputs' t) = Some pos'" by simp_all
  have "\<forall>q pos. positionOf q t = Some pos \<longrightarrow> \<not> (liquidated pos \<and> didShoot pos)"
    using startRound_exclusive [OF st] by blast
  from run_exclusive [OF this, of cfg inputs'] p
  show "\<not> (liquidated pos' \<and> didShoot pos')" by blast
qed

theorem closed_position_is_terminal_witness:
  "positionOf ''p1'' (run defaultConfig [Tick 120, Shoot ''p1'' ''r1'' 26000] demoShot)
     = Some \<lparr>playerId = ''p1'', positionType = LONG, betAmount = 10, entryPrice = 100,
             currentPnl = 5, liquidated = False, didShoot = True, shotAt = Some 25000\<rparr>
   \<and> (\<exists>e. shoot ''p1'' ''r1'' 27000
             (run defaultConfig [Tick 120, Shoot ''p1'' ''r1'' 26000] demoShot)
           = (Some e, run defaultConfig [Tick 120, Shoot ''p1'' ''r1'' 26000] demoShot))
   \<and> positionOf ''p1'' (run defaultConfig [Tick 99, Shoot ''p1'' ''r1'' 26000] demoStart)
       = Some \<lparr>playerId = ''p1'', positionType = LONG, betAmount = 10, entryPrice = 100,
               currentPnl = - 50, liquidated = True, didShoot = False, shotAt = None\<rparr>"
proof -
  have h1: "positionOf ''p1'' demoShot
              = Some \<lparr>playerId = ''p1'', positionType = LONG, betAmount = 10, entryPrice = 100,
                      currentPnl = 5, liquidated = False, didShoot = True,
                      shotAt = Some 25000\<rparr>"
    unfolding demoShot_def demoRound_eval by (simp add: orchestrator_defs)
  have h2: "positionOf ''p1'' (run defaultConfig [Tick 99, Shoot ''p1'' ''r1'' 26000] demoStart)
       = Some \<lparr>playerId = ''p1'', positionType = LONG, betAmount = 10, entryPrice = 100,
               currentPnl = - 50, liquidated = True, didShoot = False, shotAt = None\<rparr>"
    unfolding demoStart_def demoLobby_eval by (simp add: orchestrator_defs)
  from closed_position_is_terminal
         [where pid = "''p1''" and s = demoShot and cfg = defaultConfig
            and pos = "\<lparr>playerId = ''p1'', positionType = LONG, betAmount = 10,
                         entryPrice = 100, currentPnl = 5, liquidated = False,
                         didShoot = True, shotAt = Some 25000\<rparr>"
            and inputs = "[Tick 120, Shoot ''p1'' ''r1'' 26000]"
            and rid = "''r1''" and now = 27000
            and pair' = "''BTC/USD''" and ?now0.0 = 20000 and dur = 30
            and priceResult = "Some 100" and ?rid0.0 = "''r1''" and shuffle = "\<lambda>xs. xs"
            and ?s0.0 = demoLobby and t = demoStart and q = "''p1''"
            and inputs' = "[Tick 99, Shoot ''p1'' ''r1'' 26000]"
            and pos' = "\<lparr>playerId = ''p1'', positionType = LONG, betAmount = 10,
                          entryPrice = 100, currentPnl = - 50, liquidated = True,
                          didShoot = False, shotAt = None\<rparr>"]
       h1 h2 demoStart_ok
  show ?thesis by simp
qed

text \<open>
  C10. The roster is not unchanged on every rejection: \<^verbatim>\<open>joinLobby\<close> adds the player to
  the roster before it awaits the write of the lobby entry, and when that write is rejected
  the caller receives the failure while the roster holds the new entry.
\<close>

theorem joinLobby_rejected_after_roster_write_counterexample:
  "fst (joinLobby defaultConfig ''p3'' ''carol'' 30 3000 False demoLobby) = Some WriteRejected
   \<and> lobbyPlayers (snd (joinLobby defaultConfig ''p3'' ''carol'' 30 3000 False demoLobby))
       \<noteq> lobbyPlayers demoLobby"
  unfolding demoLobby_eval by (simp add: orchestrator_defs)

text \<open>
  C10, as the code has it. When \<^verbatim>\<open>joinLobby\<close> is rejected for insufficient balance the
  roster is as it was, but the player table has been written: a row with the player id,
  the username and the default balance has been appended when the username was not stored,
  and the row of the username carries the player id otherwise. On every rejection raised
  before the roster is written (wrong phase, bet below the minimum, player already in the
  roster, failed upsert, insufficient balance) the roster is as it was, and on each of
  those other than that for insufficient balance so is the whole state.
\<close>

theorem joinLobby_upsert_before_balance_check:
  "(joinLobby cfg pid uname bet now accepted s = (Some InsufficientBalance, s')
    \<longrightarrow> lobbyPlayers s' = lobbyPlayers s
        \<and> (find (\<lambda>r. rowUsername r = uname) (playerTable (db s)) = None
             \<longrightarrow> playerTable (db s') = playerTable (db s) @
                   [\<lparr>rowId = pid, rowUsername = uname,
                     demoBalance = DEFAULT_DEMO_BALANCE cfg, totalPnl = 0, gamesPlayed = 0,
                     gamesWon = 0, gamesLost = 0\<rparr>])
        \<and> (find (\<lambda>r. rowUsername r = uname) (playerTable (db s)) \<noteq> None
             \<longrightarrow> playerTable (db s') =
                   map (\<lambda>q. if rowUsername q = uname then q\<lparr>rowId := pid\<rparr> else q)
                       (playerTable (db s)))
        \<and> (\<exists>r. find (\<lambda>r. rowUsername r = uname) (playerTable (db s')) = Some r
                \<and> rowId r = pid \<and> demoBalance r < bet))
   \<and> (joinLobby cfg pid' uname' bet' now' accepted' t = (Some e, t') \<and> e \<noteq> WriteRejected
    \<longrightarrow> lobbyPlayers t' = lobbyPlayers t \<and> (e \<noteq> InsufficientBalance \<longrightarrow> t' = t))
   \<and> (joinLobby cfg pid2 uname2 bet2 now2 accepted2 t2 = (Some WriteRejected, t2')
    \<longrightarrow> \<not> accepted2 \<and> phase t2 = LOBBY \<and> MIN_BET_AMOUNT cfg \<le> bet2
        \<and> pid2 \<notin> fst ` set (lobbyPlayers t2))"
proof (intro conjI impI)
  assume a: "joinLobby cfg pid uname bet now accepted s = (Some InsufficientBalance, s')"
  from joinLobby_insufficient [OF a] obtain r where
    r: "playerUpsert uname pid (DEFAULT_DEMO_BALANCE cfg) (db s) = Some (r, db s')"
       "demoBalance r < bet" "lobbyPlayers s' = lobbyPlayers s" by blast
  from r(3) show "lobbyPlayers s' = lobbyPlayers s" .
  {
    assume "find (\<lambda>r. rowUsername r = uname) (playerTable (db s)) = None"
    with playerUpsert_table [OF r(1)]
    show "playerTable (db s') = playerTable (db s) @
                   [\<lparr>rowId = pid, rowUsername = uname,
                     demoBalance = DEFAULT_DEMO_BALANCE cfg, totalPnl = 0, gamesPlayed = 0,
                     gamesWon = 0, gamesLost = 0\<rparr>]" by simp
  }
  {
    assume "find (\<lambda>r. rowUsername r = uname) (playerTable (db s)) \<noteq> None"
    with playerUpsert_table [OF r(1)]
    show "playerTable (db s') =
                   map (\<lambda>q. if rowUsername q = uname then q\<lparr>rowId := pid\<rparr> else q)
                       (playerTable (db s))" by simp
  }
  from playerUpsert_row [OF r(1)] r(2)
  show "\<exists>r. find (\<lambda>r. rowUsername r = uname) (playerTable (db s')) = Some r
                \<and> rowId r = pid \<and> demoBalance r < bet" by blast
next
  assume b: "joinLobby cfg pid' uname' bet' now' accepted' t = (Some e, t') \<and> e \<noteq> WriteRejected"
  then have j: "joinLobby cfg pid' uname' bet' now' accepted' t = (Some e, t')"
    and w: "e \<noteq> WriteRejected" by simp_all
  from j w show "lobbyPlayers t' = lobbyPlayers t" by (rule joinLobby_rejected_roster)
  {
    assume "e \<noteq> InsufficientBalance"
    with j show "t' = t" using w by (rule joinLobby_other_rejection)
  }
next
  assume c: "joinLobby cfg pid2 uname2 bet2 now2 accepted2 t2 = (Some WriteRejected, t2')"
  then show "\<not> accepted2" and "phase t2 = LOBBY" and "MIN_BET_AMOUNT cfg \<le> bet2"
    and "pid2 \<notin> fst ` set (lobbyPlayers t2)"
    by (auto simp: joinLobby_def Let_def emit_def mapHas_iff lobbyEntryCreate_def
             split: option.splits if_splits)
qed

theorem joinLobby_upsert_before_balance_check_witness:
  "fst (joinLobby defaultConfig ''p3'' ''carol'' 1000 3000 True demoLobby)
     = Some InsufficientBalance
   \<and> lobbyPlayers (snd (joinLobby defaultConfig ''p3'' ''carol'' 1000 3000 True demoLobby))
       = lobbyPlayers demoLobby
   \<and> playerTable (db (snd (joinLobby defaultConfig ''p3'' ''carol'' 1000 3000 True demoLobby)))
       = playerTable (db demoLobby) @
           [\<lparr>rowId = ''p3'', rowUsername = ''carol'', demoBalance = 100, totalPnl = 0,
             gamesPlayed = 0, gamesWon = 0, gamesLost = 0\<rparr>]
   \<and> joinLobby defaultConfig ''p1'' ''alice'' 10 3000 True demoLobby
       = (Some AlreadyInLobby, demoLobby)
   \<and> ''p3'' \<notin> fst ` set (lobbyPlayers demoLobby)"
proof -
  have h1: "fst (joinLobby defaultConfig ''p3'' ''carol'' 1000 3000 True demoLobby)
              = Some InsufficientBalance"
    unfolding demoLobby_eval by (simp add: orchestrator_defs)
  then have h2: "joinLobby defaultConfig ''p3'' ''carol'' 1000 3000 True demoLobby
                  = (Some InsufficientBalance,
                     snd (joinLobby defaultConfig ''p3'' ''carol'' 1000 3000 True demoLobby))"
    by (simp add: prod_eq_iff)
  have h3: "find (\<lambda>r. rowUsername r = ''carol'') (playerTable (db demoLobby)) = None"
    unfolding demoLobby_eval by simp
  have h4: "fst (joinLobby defaultConfig ''p1'' ''alice'' 10 3000 True demoLobby)
              = Some AlreadyInLobby"
    unfolding demoLobby_eval by (simp add: orchestrator_defs)
  then have h5: "joinLobby defaultConfig ''p1'' ''alice'' 10 3000 True demoLobby
                  = (Some AlreadyInLobby,
                     snd (joinLobby defaultConfig ''p1'' ''alice'' 10 3000 True demoLobby))"
    by (simp add: prod_eq_iff)
  have h6: "fst (joinLobby defaultConfig ''p3'' ''carol'' 30 3000 False demoLobby)
              = Some WriteRejected"
    unfolding demoLobby_eval by (simp add: orchestrator_defs)
  then have h7: "joinLobby defaultConfig ''p3'' ''carol'' 30 3000 False demoLobby
                  = (Some WriteRejected,
                     snd (joinLobby defaultConfig ''p3'' ''carol'' 30 3000 False demoLobby))"
    by (simp add: prod_eq_iff)
  from joinLobby_upsert_before_balance_check
         [where cfg = defaultConfig and pid = "''p3''" and uname = "''carol''" and bet = 1000
            and now = 3000 and accepted = True and s = demoLobby
            and s' = "snd (joinLobby defaultConfig ''p3'' ''carol'' 1000 3000 True demoLobby)"
            and pid' = "''p1''" and uname' = "''alice''" and bet' = 10 and now' = 3000
            and accepted' = True and t = demoLobby and e = AlreadyInLobby
            and t' = "snd (joinLobby defaultConfig ''p1'' ''alice'' 10 3000 True demoLobby)"
            and ?pid2.0 = "''p3''" and ?uname2.0 = "''carol''" and ?bet2.0 = 30
            and ?now2.0 = 3000 and ?accepted2.0 = False and ?t2.0 = demoLobby
            and ?t2' = "snd (joinLobby defaultConfig ''p3'' ''carol'' 30 3000 False demoLobby)"]
       h1 h2 h3 h5 h7
  show ?thesis by (simp add: defaultConfig_def)
qed

end
